theory Spec2Isabelle
  imports Main
begin

section \<open>Effects: synchronous calls, promises and cursors\<close>

text \<open>
  The wrapper of \<^verbatim>\<open>src/converter.ts\<close> calls functions it is given: the methods of the
  underlying collection and the five transform functions. A call is modelled as a function
  of the world state \<open>'s\<close> (the database, and whatever else the callee can touch) that
  either throws an exception of type \<open>'e\<close> (\<open>Inl\<close>) or returns a value (\<open>Inr\<close>), together
  with the world it leaves behind. Nothing is assumed of \<open>'s\<close> and \<open>'e\<close>.
\<close>

type_synonym ('s, 'e, 'a) eff = "'s \<Rightarrow> ('e + 'a) \<times> 's"

definition eff_return :: "'a \<Rightarrow> ('s, 'e, 'a) eff" where
  "eff_return a = (\<lambda>s. (Inr a, s))"

definition eff_throw :: "'e \<Rightarrow> ('s, 'e, 'a) eff" where
  "eff_throw e = (\<lambda>s. (Inl e, s))"

text \<open>Sequencing: an exception of the first part skips the second.\<close>

definition eff_bind :: "('s, 'e, 'a) eff \<Rightarrow> ('a \<Rightarrow> ('s, 'e, 'b) eff) \<Rightarrow> ('s, 'e, 'b) eff" where
  "eff_bind m k = (\<lambda>s. case m s of (Inl e, s') \<Rightarrow> (Inl e, s') | (Inr a, s') \<Rightarrow> k a s')"

text \<open>
  A promise is a deferred computation: settling it, in the world of that later moment,
  rejects it (\<open>Inl\<close>) or fulfils it (\<open>Inr\<close>). \<^verbatim>\<open>p.then(f)\<close> with one callback
  passes a rejection of \<open>p\<close> on, and otherwise runs \<open>f\<close> on the value; an exception thrown
  by \<open>f\<close> rejects the new promise.
\<close>

datatype ('s, 'e, 'a) promise = Promise (settle: "('s, 'e, 'a) eff")

definition promise_then ::
  "('s, 'e, 'a) promise \<Rightarrow> ('a \<Rightarrow> ('s, 'e, 'b) eff) \<Rightarrow> ('s, 'e, 'b) promise" where
  "promise_then p f = Promise (eff_bind (settle p) f)"

text \<open>\<^verbatim>\<open>await m\<close>: make the call, then settle the promise it returned.\<close>

definition await :: "('s, 'e, ('s, 'e, 'a) promise) eff \<Rightarrow> ('s, 'e, 'a) eff" where
  "await m = eff_bind m settle"

text \<open>
  A function that is declared with one parameter can be called with more arguments, and a
  function with further optional parameters is a value of the one-parameter type. Such a
  function is modelled with a second argument for what the caller passes beyond the first:
  \<open>None\<close> in a call \<^verbatim>\<open>f(x)\<close>, and \<open>Some (index, array)\<close> in the calls
  \<^verbatim>\<open>f(x, index, array)\<close> that \<^verbatim>\<open>Array.prototype.map\<close> makes.

  \<^verbatim>\<open>docs.map(f)\<close> on an array: \<open>f\<close> is called on the elements from left to right,
  each time with the element, its index and the array, and the first exception ends the
  loop. \<open>array_map_from f arr i xs\<close> is the loop at index \<open>i\<close>, with \<open>xs\<close> the elements
  still to come.
\<close>

fun array_map_from ::
  "('a \<Rightarrow> (nat \<times> 'a list) option \<Rightarrow> ('s, 'e, 'b) eff) \<Rightarrow> 'a list \<Rightarrow> nat \<Rightarrow> 'a list \<Rightarrow>
   ('s, 'e, 'b list) eff" where
  "array_map_from f arr i [] = eff_return []"
| "array_map_from f arr i (x # xs) =
     eff_bind (f x (Some (i, arr)))
       (\<lambda>y. eff_bind (array_map_from f arr (Suc i) xs) (\<lambda>ys. eff_return (y # ys)))"

definition array_map ::
  "('a \<Rightarrow> (nat \<times> 'a list) option \<Rightarrow> ('s, 'e, 'b) eff) \<Rightarrow> 'a list \<Rightarrow> ('s, 'e, 'b list) eff" where
  "array_map f arr = array_map_from f arr 0 arr"

text \<open>
  Modelled from the spec: the cursor type returned by \<^verbatim>\<open>find\<close> is not in
  \<^verbatim>\<open>src/\<close>. The spec treats the cursor as an opaque lazy sequence. A cursor is its
  \<^verbatim>\<open>next\<close> operation, which produces the next document or \<open>None\<close> at the end; its
  position is part of the world.
\<close>

datatype ('s, 'e, 'a) cursor = Cursor (next_doc: "('s, 'e, 'a option) eff")

text \<open>
  Modelled from the spec: the \<^verbatim>\<open>map\<close> method of the cursor is not in \<^verbatim>\<open>src/\<close>.
  By the spec the ``per-element transform is applied lazily as the sequence is consumed'':
  \<open>cursor_map\<close> installs a transform that runs inside \<^verbatim>\<open>next\<close>, on the document
  just produced.
\<close>

definition cursor_map ::
  "('s, 'e, 'a) cursor \<Rightarrow> ('a \<Rightarrow> ('s, 'e, 'b) eff) \<Rightarrow> ('s, 'e, 'b) cursor" where
  "cursor_map c f =
     Cursor (eff_bind (next_doc c)
       (\<lambda>r. case r of None \<Rightarrow> eff_return None
                    | Some a \<Rightarrow> eff_bind (f a) (\<lambda>b. eff_return (Some b))))"

text \<open>A consumer that asks a cursor for its first \<open>k\<close> documents, one \<^verbatim>\<open>next\<close> each.\<close>

fun cursor_take :: "nat \<Rightarrow> ('s, 'e, 'a) cursor \<Rightarrow> ('s, 'e, 'a list) eff" where
  "cursor_take 0 c = eff_return []"
| "cursor_take (Suc k) c =
     eff_bind (next_doc c)
       (\<lambda>r. case r of None \<Rightarrow> eff_return []
                    | Some a \<Rightarrow> eff_bind (cursor_take k c) (\<lambda>as. eff_return (a # as)))"

section \<open>The data model of \<^verbatim>\<open>converter.ts\<close>\<close>

text \<open>
  \<^verbatim>\<open>TsModifyResult\<close>: the optional document under \<^verbatim>\<open>value\<close> (\<open>None\<close> is
  \<^verbatim>\<open>null\<close>; a document is an object, hence truthy) and the sibling fields, whose
  declaration is not in \<^verbatim>\<open>src/\<close>: they are the extension part of the record.
\<close>

record 'd modifyResult =
  mr_value :: "'d option"

text \<open>
  \<^verbatim>\<open>TsRawCollection\<close>: the fourteen methods the wrapper knows by name, with the types
  of their arguments as type variables (\<open>'i\<close> insert schema, \<open>'u\<close> update specification,
  \<open>'r\<close> replacement schema, \<open>'f\<close> filter, \<open>'d\<close> returned document, \<open>'o\<close> options,
  \<open>'w\<close> result of a write, \<open>'x\<close> the sibling fields of a modify-result), and under
  \<open>others\<close> the member stored under every other property name. The fields \<open>find_op\<close>
  and \<open>insert_op\<close> are the methods \<^verbatim>\<open>find\<close> and \<^verbatim>\<open>insert\<close>. Each of the fourteen
  is modelled by what a call of it does to its arguments and the world when it is called
  without a receiver, which is how the source calls it (\<^verbatim>\<open>oldMethod(...)\<close>). A member
  under \<open>others\<close> is the unbound value a property read yields; where it is a method, it
  is a function of the receiver it will be called on (see \<open>call_other\<close>).
\<close>

record ('i, 'u, 'r, 'f, 'd, 'o, 'w, 'x, 'm, 's, 'e) collection =
  insertOne :: "'i \<Rightarrow> 'o \<Rightarrow> ('s, 'e, ('s, 'e, 'w) promise) eff"
  insertMany :: "'i list \<Rightarrow> 'o \<Rightarrow> ('s, 'e, ('s, 'e, 'w) promise) eff"
  updateOne :: "'f \<Rightarrow> 'u \<Rightarrow> 'o \<Rightarrow> ('s, 'e, ('s, 'e, 'w) promise) eff"
  updateMany :: "'f \<Rightarrow> 'u \<Rightarrow> 'o \<Rightarrow> ('s, 'e, ('s, 'e, 'w) promise) eff"
  replaceOne :: "'f \<Rightarrow> 'r \<Rightarrow> 'o \<Rightarrow> ('s, 'e, ('s, 'e, 'w) promise) eff"
  findOne :: "'f \<Rightarrow> 'o \<Rightarrow> ('s, 'e, ('s, 'e, 'd option) promise) eff"
  deleteOne :: "'f \<Rightarrow> 'o \<Rightarrow> ('s, 'e, ('s, 'e, 'w) promise) eff"
  deleteMany :: "'f \<Rightarrow> 'o \<Rightarrow> ('s, 'e, ('s, 'e, 'w) promise) eff"
  find_op :: "'f \<Rightarrow> 'o \<Rightarrow> ('s, 'e, ('s, 'e, 'd) cursor) eff"
  findOneAndDelete ::
    "'f \<Rightarrow> 'o \<Rightarrow> ('s, 'e, ('s, 'e, ('d, 'x) modifyResult_scheme) promise) eff"
  findOneAndReplace ::
    "'f \<Rightarrow> 'r \<Rightarrow> 'o \<Rightarrow> ('s, 'e, ('s, 'e, ('d, 'x) modifyResult_scheme) promise) eff"
  findOneAndUpdate ::
    "'f \<Rightarrow> 'u \<Rightarrow> 'o \<Rightarrow> ('s, 'e, ('s, 'e, ('d, 'x) modifyResult_scheme) promise) eff"
  insert_op :: "'i list \<Rightarrow> 'o \<Rightarrow> ('s, 'e, ('s, 'e, 'w) promise) eff"
  update :: "'f \<Rightarrow> 'u \<Rightarrow> 'o \<Rightarrow> ('s, 'e, ('s, 'e, 'w) promise) eff"
  others :: "string \<Rightarrow> 'm"

text \<open>
  What a property read \<^verbatim>\<open>obj[prop]\<close> can yield: one of the fourteen methods, each at
  its own type, or another member.
\<close>

datatype ('i, 'u, 'r, 'f, 'd, 'o, 'w, 'x, 'm, 's, 'e) member =
    M_insertOne (un_insertOne: "'i \<Rightarrow> 'o \<Rightarrow> ('s, 'e, ('s, 'e, 'w) promise) eff")
  | M_insertMany (un_insertMany: "'i list \<Rightarrow> 'o \<Rightarrow> ('s, 'e, ('s, 'e, 'w) promise) eff")
  | M_updateOne (un_updateOne: "'f \<Rightarrow> 'u \<Rightarrow> 'o \<Rightarrow> ('s, 'e, ('s, 'e, 'w) promise) eff")
  | M_updateMany (un_updateMany: "'f \<Rightarrow> 'u \<Rightarrow> 'o \<Rightarrow> ('s, 'e, ('s, 'e, 'w) promise) eff")
  | M_replaceOne (un_replaceOne: "'f \<Rightarrow> 'r \<Rightarrow> 'o \<Rightarrow> ('s, 'e, ('s, 'e, 'w) promise) eff")
  | M_findOne (un_findOne: "'f \<Rightarrow> 'o \<Rightarrow> ('s, 'e, ('s, 'e, 'd option) promise) eff")
  | M_deleteOne (un_deleteOne: "'f \<Rightarrow> 'o \<Rightarrow> ('s, 'e, ('s, 'e, 'w) promise) eff")
  | M_deleteMany (un_deleteMany: "'f \<Rightarrow> 'o \<Rightarrow> ('s, 'e, ('s, 'e, 'w) promise) eff")
  | M_find (un_find: "'f \<Rightarrow> 'o \<Rightarrow> ('s, 'e, ('s, 'e, 'd) cursor) eff")
  | M_findOneAndDelete (un_findOneAndDelete:
      "'f \<Rightarrow> 'o \<Rightarrow> ('s, 'e, ('s, 'e, ('d, 'x) modifyResult_scheme) promise) eff")
  | M_findOneAndReplace (un_findOneAndReplace:
      "'f \<Rightarrow> 'r \<Rightarrow> 'o \<Rightarrow> ('s, 'e, ('s, 'e, ('d, 'x) modifyResult_scheme) promise) eff")
  | M_findOneAndUpdate (un_findOneAndUpdate:
      "'f \<Rightarrow> 'u \<Rightarrow> 'o \<Rightarrow> ('s, 'e, ('s, 'e, ('d, 'x) modifyResult_scheme) promise) eff")
  | M_insert (un_insert: "'i list \<Rightarrow> 'o \<Rightarrow> ('s, 'e, ('s, 'e, 'w) promise) eff")
  | M_update (un_update: "'f \<Rightarrow> 'u \<Rightarrow> 'o \<Rightarrow> ('s, 'e, ('s, 'e, 'w) promise) eff")
  | M_other (un_other: 'm)

text \<open>The property read \<^verbatim>\<open>target[prop]\<close> on a collection object.\<close>

definition lookup ::
  "('i, 'u, 'r, 'f, 'd, 'o, 'w, 'x, 'm, 's, 'e) collection \<Rightarrow> string \<Rightarrow>
   ('i, 'u, 'r, 'f, 'd, 'o, 'w, 'x, 'm, 's, 'e) member" where
  "lookup obj prop =
    (if prop = ''insertOne'' then M_insertOne (insertOne obj)
     else if prop = ''insertMany'' then M_insertMany (insertMany obj)
     else if prop = ''updateOne'' then M_updateOne (updateOne obj)
     else if prop = ''updateMany'' then M_updateMany (updateMany obj)
     else if prop = ''replaceOne'' then M_replaceOne (replaceOne obj)
     else if prop = ''findOne'' then M_findOne (findOne obj)
     else if prop = ''deleteOne'' then M_deleteOne (deleteOne obj)
     else if prop = ''deleteMany'' then M_deleteMany (deleteMany obj)
     else if prop = ''find'' then M_find (find_op obj)
     else if prop = ''findOneAndDelete'' then M_findOneAndDelete (findOneAndDelete obj)
     else if prop = ''findOneAndReplace'' then M_findOneAndReplace (findOneAndReplace obj)
     else if prop = ''findOneAndUpdate'' then M_findOneAndUpdate (findOneAndUpdate obj)
     else if prop = ''insert'' then M_insert (insert_op obj)
     else if prop = ''update'' then M_update (update obj)
     else M_other (others obj prop))"

text \<open>\<^verbatim>\<open>middlewareMethods\<close>, lines 6 to 46.\<close>

definition middlewareMethods :: "string list" where
  "middlewareMethods =
    [''insertOne'', ''insertMany'', ''bulkWrite'', ''updateOne'', ''replaceOne'',
     ''updateMany'', ''deleteOne'', ''deleteMany'', ''rename'', ''drop'', ''findOne'',
     ''find'', ''estimatedDocumentCount'', ''countDocuments'', ''distinct'',
     ''findOneAndDelete'', ''findOneAndReplace'', ''findOneAndUpdate'', ''aggregate'',
     ''watch'', ''mapReduce'', ''initializeUnorderedBulkOp'', ''initializeOrderedBulkOp'',
     ''insert'', ''update'', ''remove'', ''count'',
     ''createIndex'', ''createIndexes'', ''dropIndex'', ''dropIndexes'', ''listIndexes'',
     ''indexExists'', ''indexInformation'', ''indexes'', ''stats'']"

text \<open>
  \<^verbatim>\<open>Converter\<close>: the five transform functions. The wrapper only calls them, so they
  are modelled as calls like any other: what they do to the world and whether they throw
  is theirs. \<^verbatim>\<open>preInsert\<close> is the one transform the source also hands to
  \<^verbatim>\<open>Array.prototype.map\<close>, so it has the second argument for what it is called with
  beyond the document. The pure, total transforms of one parameter that the spec asks for
  are the special case \<open>pure_converter\<close>.
\<close>

record ('i0, 'i1, 'u0, 'u1, 'r0, 'r1, 'f, 'd, 's, 'e) converter =
  preInsert :: "'i1 \<Rightarrow> (nat \<times> 'i1 list) option \<Rightarrow> ('s, 'e, 'i0) eff"
  preUpdate :: "'u1 \<Rightarrow> ('s, 'e, 'u0) eff"
  preReplace :: "'r1 \<Rightarrow> ('s, 'e, 'r0) eff"
  postFind :: "'d \<Rightarrow> ('s, 'e, 'd) eff"
  deleteFilter :: "'f \<Rightarrow> ('s, 'e, 'f) eff"

definition pure_converter ::
  "('i1 \<Rightarrow> 'i0) \<Rightarrow> ('u1 \<Rightarrow> 'u0) \<Rightarrow> ('r1 \<Rightarrow> 'r0) \<Rightarrow> ('d \<Rightarrow> 'd) \<Rightarrow> ('f \<Rightarrow> 'f) \<Rightarrow>
   ('i0, 'i1, 'u0, 'u1, 'r0, 'r1, 'f, 'd, 's, 'e) converter" where
  "pure_converter pre_insert pre_update pre_replace post_find delete_filter =
    \<lparr> preInsert = (\<lambda>obj further. eff_return (pre_insert obj)),
      preUpdate = (\<lambda>obj. eff_return (pre_update obj)),
      preReplace = (\<lambda>obj. eff_return (pre_replace obj)),
      postFind = (\<lambda>obj. eff_return (post_find obj)),
      deleteFilter = (\<lambda>obj. eff_return (delete_filter obj)) \<rparr>"

section \<open>\<^verbatim>\<open>convertRawCollection\<close>\<close>

text \<open>
  \<^verbatim>\<open>convertModifyResult\<close>, lines 125 to 128: the result is taken apart into
  \<^verbatim>\<open>value\<close> and the rest, \<^verbatim>\<open>postFind\<close> is called when \<^verbatim>\<open>value\<close> is truthy, and
  the result is put together again.
\<close>

definition convertModifyResult ::
  "('i0, 'i1, 'u0, 'u1, 'r0, 'r1, 'f, 'd, 's, 'e) converter \<Rightarrow>
   ('d, 'x) modifyResult_scheme \<Rightarrow> ('s, 'e, ('d, 'x) modifyResult_scheme) eff" where
  "convertModifyResult cv r =
    (let val = mr_value r; result = modifyResult.more r in
     eff_bind
       (case val of
          Some v \<Rightarrow> eff_bind (postFind cv v) (\<lambda>d. eff_return (Some d))
        | None \<Rightarrow> eff_return val)
       (\<lambda>val'. eff_return \<lparr> mr_value = val', \<dots> = result \<rparr>))"

text \<open>\<^verbatim>\<open>convert\<close>, lines 130 to 137; \<open>prop\<close> is the typed key, a field selector.\<close>

definition convert :: "'t \<Rightarrow> ('t \<Rightarrow> 'a) \<Rightarrow> ('a \<Rightarrow> 'b) \<Rightarrow> 'b" where
  "convert target prop converter = (let oldMethod = prop target in converter oldMethod)"

text \<open>
  The \<^verbatim>\<open>get\<close> trap of the proxy, lines 140 to 250: the \<^verbatim>\<open>switch\<close> over the property
  name, case by case in the order of the source, and the \<^verbatim>\<open>default\<close>. In the default
  case \<open>prop\<close> is none of the fourteen names, so \<^verbatim>\<open>target[prop]\<close> is the member under
  \<open>others\<close>; it is returned as it is, while the schema parameters of the collection type
  change around it (the cast of line 254).
\<close>

definition get ::
  "('i0, 'i1, 'u0, 'u1, 'r0, 'r1, 'f, 'd, 's, 'e) converter \<Rightarrow>
   ('i0, 'u0, 'r0, 'f, 'd, 'o, 'w, 'x, 'm, 's, 'e) collection \<Rightarrow> string \<Rightarrow>
   ('i1, 'u1, 'r1, 'f, 'd, 'o, 'w, 'x, 'm, 's, 'e) member" where
  "get cv target prop =
    (if prop = ''insertOne'' then
       M_insertOne (convert target insertOne
         (\<lambda>oldMethod. (\<lambda>doc options.
            eff_bind (preInsert cv doc None) (\<lambda>doc'. oldMethod doc' options))))
     else if prop = ''insertMany'' then
       M_insertMany (convert target insertMany
         (\<lambda>oldMethod. (\<lambda>docs options.
            eff_bind (array_map (preInsert cv) docs) (\<lambda>docs'. oldMethod docs' options))))
     else if prop = ''updateOne'' then
       M_updateOne (convert target updateOne
         (\<lambda>oldMethod. (\<lambda>filter update options.
            eff_bind (preUpdate cv update) (\<lambda>update'. oldMethod filter update' options))))
     else if prop = ''updateMany'' then
       M_updateMany (convert target updateMany
         (\<lambda>oldMethod. (\<lambda>filter update options.
            eff_bind (preUpdate cv update) (\<lambda>update'. oldMethod filter update' options))))
     else if prop = ''replaceOne'' then
       M_replaceOne (convert target replaceOne
         (\<lambda>oldMethod. (\<lambda>filter replacement options.
            eff_bind (preReplace cv replacement)
              (\<lambda>replacement'. oldMethod filter replacement' options))))
     else if prop = ''findOne'' then
       M_findOne (convert target findOne
         (\<lambda>oldMethod. (\<lambda>filter options.
            eff_bind (oldMethod filter options)
              (\<lambda>p. eff_return (promise_then p
                 (\<lambda>result. case result of
                      Some doc \<Rightarrow> eff_bind (postFind cv doc) (\<lambda>doc'. eff_return (Some doc'))
                    | None \<Rightarrow> eff_return None))))))
     else if prop = ''deleteOne'' then
       M_deleteOne (convert target deleteOne
         (\<lambda>oldMethod. (\<lambda>filter options.
            eff_bind (deleteFilter cv filter) (\<lambda>filter'. oldMethod filter' options))))
     else if prop = ''deleteMany'' then
       M_deleteMany (convert target deleteMany
         (\<lambda>oldMethod. (\<lambda>filter options.
            eff_bind (deleteFilter cv filter) (\<lambda>filter'. oldMethod filter' options))))
     else if prop = ''find'' then
       M_find (convert target find_op
         (\<lambda>oldMethod. (\<lambda>filter options.
            eff_bind (oldMethod filter options)
              (\<lambda>c. eff_return (cursor_map c (postFind cv))))))
     else if prop = ''findOneAndDelete'' then
       M_findOneAndDelete (convert target findOneAndDelete
         (\<lambda>oldMethod. (\<lambda>filter options.
            eff_bind (oldMethod filter options)
              (\<lambda>p. eff_return (promise_then p (convertModifyResult cv))))))
     else if prop = ''findOneAndReplace'' then
       M_findOneAndReplace (convert target findOneAndReplace
         (\<lambda>oldMethod. (\<lambda>filter replacement options.
            eff_bind (preReplace cv replacement)
              (\<lambda>replacement'. eff_bind (oldMethod filter replacement' options)
                 (\<lambda>p. eff_return (promise_then p (convertModifyResult cv)))))))
     else if prop = ''findOneAndUpdate'' then
       M_findOneAndUpdate (convert target findOneAndUpdate
         (\<lambda>oldMethod. (\<lambda>filter update options.
            eff_bind (preUpdate cv update)
              (\<lambda>update'. eff_bind (oldMethod filter update' options)
                 (\<lambda>p. eff_return (promise_then p (convertModifyResult cv)))))))
     else if prop = ''insert'' then
       M_insert (convert target insert_op
         (\<lambda>oldMethod. (\<lambda>docs options.
            eff_bind (array_map (preInsert cv) docs) (\<lambda>docs'. oldMethod docs' options))))
     else if prop = ''update'' then
       M_update (convert target update
         (\<lambda>oldMethod. (\<lambda>filter update options.
            eff_bind (preUpdate cv update) (\<lambda>update'. oldMethod filter update' options))))
     else M_other (others target prop))"

text \<open>
  \<^verbatim>\<open>convertRawCollection\<close>, lines 69 to 255, returns the proxy
  \<^verbatim>\<open>as unknown as ReturnType\<close>: an object of the collection type again, every
  property of which is what the trap returns for its name. The fourteen are the arrow
  functions of the trap, which have no receiver; a member under \<open>others\<close> is the
  underlying one, unbound.
\<close>

definition convertRawCollection ::
  "('i0, 'u0, 'r0, 'f, 'd, 'o, 'w, 'x, 'm, 's, 'e) collection \<Rightarrow>
   ('i0, 'i1, 'u0, 'u1, 'r0, 'r1, 'f, 'd, 's, 'e) converter \<Rightarrow>
   ('i1, 'u1, 'r1, 'f, 'd, 'o, 'w, 'x, 'm, 's, 'e) collection" where
  "convertRawCollection collection cv =
    (let proxy = get cv collection in
     \<lparr> insertOne = un_insertOne (proxy ''insertOne''),
       insertMany = un_insertMany (proxy ''insertMany''),
       updateOne = un_updateOne (proxy ''updateOne''),
       updateMany = un_updateMany (proxy ''updateMany''),
       replaceOne = un_replaceOne (proxy ''replaceOne''),
       findOne = un_findOne (proxy ''findOne''),
       deleteOne = un_deleteOne (proxy ''deleteOne''),
       deleteMany = un_deleteMany (proxy ''deleteMany''),
       find_op = un_find (proxy ''find''),
       findOneAndDelete = un_findOneAndDelete (proxy ''findOneAndDelete''),
       findOneAndReplace = un_findOneAndReplace (proxy ''findOneAndReplace''),
       findOneAndUpdate = un_findOneAndUpdate (proxy ''findOneAndUpdate''),
       insert_op = un_insert (proxy ''insert''),
       update = un_update (proxy ''update''),
       others = (\<lambda>prop. un_other (proxy prop)) \<rparr>)"

text \<open>
  The trap returns \<^verbatim>\<open>target[prop]\<close> unbound (line 248), so in a method call
  \<^verbatim>\<open>obj[prop](...)\<close> the member runs with \<open>obj\<close> as its receiver, be \<open>obj\<close> the
  underlying handle or the proxy. What a member reaches through \<^verbatim>\<open>this\<close> is modelled
  by the fourteen named methods of the receiver; the other members of the receiver are
  hidden from it.
\<close>

definition this_view ::
  "('i, 'u, 'r, 'f, 'd, 'o, 'w, 'x, 'm, 's, 'e) collection \<Rightarrow>
   ('i, 'u, 'r, 'f, 'd, 'o, 'w, 'x, unit, 's, 'e) collection" where
  "this_view obj =
    \<lparr> insertOne = insertOne obj,
      insertMany = insertMany obj,
      updateOne = updateOne obj,
      updateMany = updateMany obj,
      replaceOne = replaceOne obj,
      findOne = findOne obj,
      deleteOne = deleteOne obj,
      deleteMany = deleteMany obj,
      find_op = find_op obj,
      findOneAndDelete = findOneAndDelete obj,
      findOneAndReplace = findOneAndReplace obj,
      findOneAndUpdate = findOneAndUpdate obj,
      insert_op = insert_op obj,
      update = update obj,
      others = (\<lambda>prop. ()) \<rparr>"

text \<open>
  The method call \<^verbatim>\<open>obj[prop](...)\<close> for a name outside the fourteen: the member is
  read from \<open>obj\<close> and run with \<open>obj\<close> as its receiver.
\<close>

definition call_other ::
  "('i, 'u, 'r, 'f, 'd, 'o, 'w, 'x,
    ('i, 'u, 'r, 'f, 'd, 'o, 'w, 'x, unit, 's, 'e) collection \<Rightarrow> 'a, 's, 'e) collection \<Rightarrow>
   string \<Rightarrow> 'a" where
  "call_other obj prop = others obj prop (this_view obj)"

text \<open>The intercepted set: the fourteen operation names the spec lists as rewritten.\<close>

definition intercepted :: "string list" where
  "intercepted =
    [''insertOne'', ''insertMany'', ''insert'', ''updateOne'', ''updateMany'', ''update'',
     ''replaceOne'', ''deleteOne'', ''deleteMany'', ''findOne'', ''find'',
     ''findOneAndDelete'', ''findOneAndReplace'', ''findOneAndUpdate'']"

section \<open>Test doubles\<close>

text \<open>
  A recording handle and recording transforms, for stating how often and with which
  arguments the wrapper calls what it was given. The world is the list of calls made so
  far, the oldest first.
\<close>

datatype ('i1, 'u1, 'r1, 'i, 'u, 'r, 'f, 'd, 'o) event =
    Called_preInsert 'i1
  | Called_preUpdate 'u1
  | Called_preReplace 'r1
  | Called_postFind 'd
  | Called_deleteFilter 'f
  | Called_insertOne 'i 'o
  | Called_insertMany "'i list" 'o
  | Called_updateOne 'f 'u 'o
  | Called_updateMany 'f 'u 'o
  | Called_replaceOne 'f 'r 'o
  | Called_findOne 'f 'o
  | Called_deleteOne 'f 'o
  | Called_deleteMany 'f 'o
  | Called_find 'f 'o
  | Called_findOneAndDelete 'f 'o
  | Called_findOneAndReplace 'f 'r 'o
  | Called_findOneAndUpdate 'f 'u 'o
  | Called_insert "'i list" 'o
  | Called_update 'f 'u 'o
  | Called_other string 'f 'o
  | Called_next

definition record_call :: "'ev \<Rightarrow> 'a \<Rightarrow> ('ev list, 'e, 'a) eff" where
  "record_call ev a = (\<lambda>log. (Inr a, log @ [ev]))"

text \<open>
  The recording handle answers every write with \<open>w\<close>, \<^verbatim>\<open>findOne\<close> with \<open>found\<close>, the
  find-and-modify operations with \<open>mr\<close>, and \<^verbatim>\<open>find\<close> with a cursor that produces
  \<open>found\<close> at every \<^verbatim>\<open>next\<close>. Every other member is a method of a filter and options
  that does not use its receiver.
\<close>

definition spy ::
  "'w \<Rightarrow> 'd option \<Rightarrow> ('d, 'x) modifyResult_scheme \<Rightarrow>
   ('i, 'u, 'r, 'f, 'd, 'o, 'w, 'x,
    't \<Rightarrow> 'f \<Rightarrow> 'o \<Rightarrow> (('i1, 'u1, 'r1, 'i, 'u, 'r, 'f, 'd, 'o) event list, 'e,
      (('i1, 'u1, 'r1, 'i, 'u, 'r, 'f, 'd, 'o) event list, 'e, 'w) promise) eff,
    ('i1, 'u1, 'r1, 'i, 'u, 'r, 'f, 'd, 'o) event list, 'e) collection" where
  "spy w found mr =
    \<lparr> insertOne = (\<lambda>doc options. record_call (Called_insertOne doc options) (Promise (eff_return w))),
      insertMany = (\<lambda>docs options. record_call (Called_insertMany docs options) (Promise (eff_return w))),
      updateOne = (\<lambda>filter upd options.
        record_call (Called_updateOne filter upd options) (Promise (eff_return w))),
      updateMany = (\<lambda>filter upd options.
        record_call (Called_updateMany filter upd options) (Promise (eff_return w))),
      replaceOne = (\<lambda>filter replacement options.
        record_call (Called_replaceOne filter replacement options) (Promise (eff_return w))),
      findOne = (\<lambda>filter options.
        record_call (Called_findOne filter options) (Promise (eff_return found))),
      deleteOne = (\<lambda>filter options.
        record_call (Called_deleteOne filter options) (Promise (eff_return w))),
      deleteMany = (\<lambda>filter options.
        record_call (Called_deleteMany filter options) (Promise (eff_return w))),
      find_op = (\<lambda>filter options.
        record_call (Called_find filter options) (Cursor (record_call Called_next found))),
      findOneAndDelete = (\<lambda>filter options.
        record_call (Called_findOneAndDelete filter options) (Promise (eff_return mr))),
      findOneAndReplace = (\<lambda>filter replacement options.
        record_call (Called_findOneAndReplace filter replacement options) (Promise (eff_return mr))),
      findOneAndUpdate = (\<lambda>filter upd options.
        record_call (Called_findOneAndUpdate filter upd options) (Promise (eff_return mr))),
      insert_op = (\<lambda>docs options. record_call (Called_insert docs options) (Promise (eff_return w))),
      update = (\<lambda>filter upd options.
        record_call (Called_update filter upd options) (Promise (eff_return w))),
      others = (\<lambda>prop this filter options.
        record_call (Called_other prop filter options) (Promise (eff_return w))) \<rparr>"

text \<open>
  Recording transforms of one parameter: each notes its call and then returns what the
  pure one does.
\<close>

definition spy_converter ::
  "('i1 \<Rightarrow> 'i0) \<Rightarrow> ('u1 \<Rightarrow> 'u0) \<Rightarrow> ('r1 \<Rightarrow> 'r0) \<Rightarrow> ('d \<Rightarrow> 'd) \<Rightarrow> ('f \<Rightarrow> 'f) \<Rightarrow>
   ('i0, 'i1, 'u0, 'u1, 'r0, 'r1, 'f, 'd,
    ('i1, 'u1, 'r1, 'i, 'u, 'r, 'f, 'd, 'o) event list, 'e) converter" where
  "spy_converter pre_insert pre_update pre_replace post_find delete_filter =
    \<lparr> preInsert = (\<lambda>obj further. record_call (Called_preInsert obj) (pre_insert obj)),
      preUpdate = (\<lambda>obj. record_call (Called_preUpdate obj) (pre_update obj)),
      preReplace = (\<lambda>obj. record_call (Called_preReplace obj) (pre_replace obj)),
      postFind = (\<lambda>obj. record_call (Called_postFind obj) (post_find obj)),
      deleteFilter = (\<lambda>obj. record_call (Called_deleteFilter obj) (delete_filter obj)) \<rparr>"

text \<open>
  Counting test doubles for a cursor and a transform over any world: \<open>produced\<close> counts
  the documents the underlying cursor has handed out, \<open>transformed\<close> the calls of the
  transform.
\<close>

record 's probe =
  world :: 's
  produced :: nat
  transformed :: nat

definition probe_cursor :: "('s, 'e, 'a) cursor \<Rightarrow> ('s probe, 'e, 'a) cursor" where
  "probe_cursor c =
     Cursor (\<lambda>p. case next_doc c (world p) of
        (Inr (Some a), s') \<Rightarrow> (Inr (Some a), p\<lparr>world := s', produced := produced p + 1\<rparr>)
      | (r, s') \<Rightarrow> (r, p\<lparr>world := s'\<rparr>))"

definition probe_transform :: "('a \<Rightarrow> ('s, 'e, 'b) eff) \<Rightarrow> 'a \<Rightarrow> ('s probe, 'e, 'b) eff" where
  "probe_transform f a =
     (\<lambda>p. case f a (world p) of
        (r, s') \<Rightarrow> (r, p\<lparr>world := s', transformed := transformed p + 1\<rparr>))"

text \<open>A cursor over a world that is the list of the documents still to come.\<close>

definition list_cursor :: "('a list, 'e, 'a) cursor" where
  "list_cursor =
     Cursor (\<lambda>docs. case docs of [] \<Rightarrow> (Inr None, []) | d # rest \<Rightarrow> (Inr (Some d), rest))"

text \<open>
  Concrete inputs: documents, filters, options, results and exceptions are numbers.
\<close>

record 'd example_result = "'d modifyResult" +
  ok :: nat

type_synonym example_log = "(nat, nat, nat, nat, nat, nat, nat, nat, nat) event list"

type_synonym example_receiver =
  "(nat, nat, nat, nat, nat, nat, nat, unit example_result_ext, unit, example_log, nat)
   collection"

type_synonym example_collection =
  "(nat, nat, nat, nat, nat, nat, nat, unit example_result_ext,
    example_receiver \<Rightarrow> nat \<Rightarrow> nat \<Rightarrow> (example_log, nat, (example_log, nat, nat) promise) eff,
    example_log, nat) collection"

definition example_found :: example_collection where
  "example_found = spy 0 (Some 7) \<lparr>mr_value = Some 7, ok = 1\<rparr>"

definition example_missing :: example_collection where
  "example_missing = spy 0 None \<lparr>mr_value = None, ok = 1\<rparr>"

definition example_converter ::
  "(nat, nat, nat, nat, nat, nat, nat, nat, example_log, nat) converter" where
  "example_converter =
     spy_converter (\<lambda>i. i + 10) (\<lambda>u. u + 20) (\<lambda>r. r + 30) (\<lambda>d. d + 40) (\<lambda>f. f + 50)"

text \<open>
  A handle whose \<^verbatim>\<open>insertOne\<close> reports its failure the way a promise-returning
  operation does, by rejecting the promise it returned, and a transformation set whose
  \<^verbatim>\<open>preInsert\<close> throws.
\<close>

definition example_rejecting :: example_collection where
  "example_rejecting =
     example_found\<lparr>insertOne := (\<lambda>doc options.
        record_call (Called_insertOne doc options) (Promise (eff_throw 99)))\<rparr>"

definition example_throwing_converter ::
  "(nat, nat, nat, nat, nat, nat, nat, nat, example_log, nat) converter" where
  "example_throwing_converter =
     example_converter\<lparr>preInsert := (\<lambda>obj further. eff_throw 13)\<rparr>"

text \<open>
  A \<^verbatim>\<open>preInsert\<close> with an optional second parameter,
  \<^verbatim>\<open>(obj, k = 0) => obj + 10 + k\<close>.
\<close>

definition example_indexing_converter ::
  "(nat, nat, nat, nat, nat, nat, nat, nat, example_log, nat) converter" where
  "example_indexing_converter =
     example_converter\<lparr>preInsert := (\<lambda>obj further.
        eff_return (obj + 10 + (case further of None \<Rightarrow> 0 | Some (k, arr) \<Rightarrow> k)))\<rparr>"

text \<open>
  A handle two of whose other members go through their receiver: \<^verbatim>\<open>remove\<close> ends in
  \<^verbatim>\<open>this.deleteMany(filter, options)\<close>, and \<^verbatim>\<open>bulkWrite\<close>, here of one document, in
  \<^verbatim>\<open>this.insertOne(doc, options)\<close>.
\<close>

definition example_delegating :: example_collection where
  "example_delegating =
     example_found\<lparr>others := (\<lambda>prop this filter options.
        eff_bind (record_call (Called_other prop filter options) ())
          (\<lambda>_. if prop = ''remove'' then deleteMany this filter options
               else if prop = ''bulkWrite'' then insertOne this filter options
               else eff_return (Promise (eff_return 0))))\<rparr>"

section \<open>The effect operations\<close>

lemma eff_bind_return: "eff_bind (eff_return a) k = k a"
  by (simp add: eff_bind_def eff_return_def)

lemma eff_bind_return_right: "eff_bind m eff_return = m"
  by (auto simp: eff_bind_def eff_return_def fun_eq_iff split: prod.splits sum.splits)

lemma eff_bind_assoc:
  "eff_bind (eff_bind m k) k' = eff_bind m (\<lambda>a. eff_bind (k a) k')"
  by (auto simp: eff_bind_def fun_eq_iff split: prod.splits sum.splits)

lemma eff_bind_Inl: "m s = (Inl e, s') \<Longrightarrow> eff_bind m k s = (Inl e, s')"
  by (simp add: eff_bind_def)

lemma eff_bind_Inr: "m s = (Inr a, s') \<Longrightarrow> eff_bind m k s = k a s'"
  by (simp add: eff_bind_def)

lemma array_map_from_pure:
  "array_map_from (\<lambda>x further. eff_return (f x)) arr i xs = eff_return (map f xs)"
  by (induction xs arbitrary: i) (simp_all add: eff_bind_return)

lemma array_map_pure: "array_map (\<lambda>x further. eff_return (f x)) xs = eff_return (map f xs)"
  by (simp add: array_map_def array_map_from_pure)

lemma record_call_apply: "record_call ev a log = (Inr a, log @ [ev])"
  by (simp add: record_call_def)

lemma record_call_bind: "eff_bind (record_call ev a) k log = k a (log @ [ev])"
  by (simp add: eff_bind_def record_call_def)

lemma array_map_from_record:
  "array_map_from (\<lambda>x further. record_call (ev x) (f x)) arr i xs log
     = (Inr (map f xs), log @ map ev xs)"
  by (induction xs arbitrary: log i)
     (simp_all add: eff_return_def eff_bind_def record_call_def)

lemma array_map_record:
  "array_map (\<lambda>x further. record_call (ev x) (f x)) xs log = (Inr (map f xs), log @ map ev xs)"
  by (simp add: array_map_def array_map_from_record)

lemma array_map_record_bind:
  "eff_bind (array_map (\<lambda>x further. record_call (ev x) (f x)) xs) k log
     = k (map f xs) (log @ map ev xs)"
  by (simp add: eff_bind_def array_map_record)

lemma this_view_fields:
  "insertOne (this_view obj) = insertOne obj"
  "insertMany (this_view obj) = insertMany obj"
  "updateOne (this_view obj) = updateOne obj"
  "updateMany (this_view obj) = updateMany obj"
  "replaceOne (this_view obj) = replaceOne obj"
  "findOne (this_view obj) = findOne obj"
  "deleteOne (this_view obj) = deleteOne obj"
  "deleteMany (this_view obj) = deleteMany obj"
  "find_op (this_view obj) = find_op obj"
  "findOneAndDelete (this_view obj) = findOneAndDelete obj"
  "findOneAndReplace (this_view obj) = findOneAndReplace obj"
  "findOneAndUpdate (this_view obj) = findOneAndUpdate obj"
  "insert_op (this_view obj) = insert_op obj"
  "update (this_view obj) = update obj"
  by (simp_all add: this_view_def)

lemma pure_fields:
  "preInsert (pure_converter pi pu pr pf df) = (\<lambda>obj further. eff_return (pi obj))"
  "preUpdate (pure_converter pi pu pr pf df) = (\<lambda>obj. eff_return (pu obj))"
  "preReplace (pure_converter pi pu pr pf df) = (\<lambda>obj. eff_return (pr obj))"
  "postFind (pure_converter pi pu pr pf df) = (\<lambda>obj. eff_return (pf obj))"
  "deleteFilter (pure_converter pi pu pr pf df) = (\<lambda>obj. eff_return (df obj))"
  by (simp_all add: pure_converter_def)

lemma spy_converter_fields:
  "preInsert (spy_converter pi pu pr pf df)
     = (\<lambda>obj further. record_call (Called_preInsert obj) (pi obj))"
  "preUpdate (spy_converter pi pu pr pf df) = (\<lambda>obj. record_call (Called_preUpdate obj) (pu obj))"
  "preReplace (spy_converter pi pu pr pf df) = (\<lambda>obj. record_call (Called_preReplace obj) (pr obj))"
  "postFind (spy_converter pi pu pr pf df) = (\<lambda>obj. record_call (Called_postFind obj) (pf obj))"
  "deleteFilter (spy_converter pi pu pr pf df) = (\<lambda>obj. record_call (Called_deleteFilter obj) (df obj))"
  by (simp_all add: spy_converter_def)

section \<open>The members of the wrapped handle\<close>

lemma wrapped_insertOne:
  "insertOne (convertRawCollection h cv) =
     (\<lambda>doc options. eff_bind (preInsert cv doc None) (\<lambda>doc'. insertOne h doc' options))"
  by (simp add: convertRawCollection_def get_def convert_def)

lemma wrapped_insertMany:
  "insertMany (convertRawCollection h cv) =
     (\<lambda>docs options. eff_bind (array_map (preInsert cv) docs) (\<lambda>docs'. insertMany h docs' options))"
  by (simp add: convertRawCollection_def get_def convert_def)

lemma wrapped_updateOne:
  "updateOne (convertRawCollection h cv) =
     (\<lambda>filter upd options. eff_bind (preUpdate cv upd) (\<lambda>upd'. updateOne h filter upd' options))"
  by (simp add: convertRawCollection_def get_def convert_def)

lemma wrapped_updateMany:
  "updateMany (convertRawCollection h cv) =
     (\<lambda>filter upd options. eff_bind (preUpdate cv upd) (\<lambda>upd'. updateMany h filter upd' options))"
  by (simp add: convertRawCollection_def get_def convert_def)

lemma wrapped_replaceOne:
  "replaceOne (convertRawCollection h cv) =
     (\<lambda>filter replacement options.
        eff_bind (preReplace cv replacement) (\<lambda>r'. replaceOne h filter r' options))"
  by (simp add: convertRawCollection_def get_def convert_def)

lemma wrapped_findOne:
  "findOne (convertRawCollection h cv) =
     (\<lambda>filter options.
        eff_bind (findOne h filter options)
          (\<lambda>p. eff_return (promise_then p
             (\<lambda>result. case result of
                  Some doc \<Rightarrow> eff_bind (postFind cv doc) (\<lambda>doc'. eff_return (Some doc'))
                | None \<Rightarrow> eff_return None))))"
  by (simp add: convertRawCollection_def get_def convert_def)

lemma wrapped_deleteOne:
  "deleteOne (convertRawCollection h cv) =
     (\<lambda>filter options. eff_bind (deleteFilter cv filter) (\<lambda>f'. deleteOne h f' options))"
  by (simp add: convertRawCollection_def get_def convert_def)

lemma wrapped_deleteMany:
  "deleteMany (convertRawCollection h cv) =
     (\<lambda>filter options. eff_bind (deleteFilter cv filter) (\<lambda>f'. deleteMany h f' options))"
  by (simp add: convertRawCollection_def get_def convert_def)

lemma wrapped_find:
  "find_op (convertRawCollection h cv) =
     (\<lambda>filter options.
        eff_bind (find_op h filter options) (\<lambda>c. eff_return (cursor_map c (postFind cv))))"
  by (simp add: convertRawCollection_def get_def convert_def)

lemma wrapped_findOneAndDelete:
  "findOneAndDelete (convertRawCollection h cv) =
     (\<lambda>filter options.
        eff_bind (findOneAndDelete h filter options)
          (\<lambda>p. eff_return (promise_then p (convertModifyResult cv))))"
  by (simp add: convertRawCollection_def get_def convert_def)

lemma wrapped_findOneAndReplace:
  "findOneAndReplace (convertRawCollection h cv) =
     (\<lambda>filter replacement options.
        eff_bind (preReplace cv replacement)
          (\<lambda>r'. eff_bind (findOneAndReplace h filter r' options)
             (\<lambda>p. eff_return (promise_then p (convertModifyResult cv)))))"
  by (simp add: convertRawCollection_def get_def convert_def)

lemma wrapped_findOneAndUpdate:
  "findOneAndUpdate (convertRawCollection h cv) =
     (\<lambda>filter upd options.
        eff_bind (preUpdate cv upd)
          (\<lambda>upd'. eff_bind (findOneAndUpdate h filter upd' options)
             (\<lambda>p. eff_return (promise_then p (convertModifyResult cv)))))"
  by (simp add: convertRawCollection_def get_def convert_def)

lemma wrapped_insert:
  "insert_op (convertRawCollection h cv) =
     (\<lambda>docs options. eff_bind (array_map (preInsert cv) docs) (\<lambda>docs'. insert_op h docs' options))"
  by (simp add: convertRawCollection_def get_def convert_def)

lemma wrapped_update:
  "update (convertRawCollection h cv) =
     (\<lambda>filter upd options. eff_bind (preUpdate cv upd) (\<lambda>upd'. update h filter upd' options))"
  by (simp add: convertRawCollection_def get_def convert_def)

lemmas wrapped_members =
  wrapped_insertOne wrapped_insertMany wrapped_updateOne wrapped_updateMany wrapped_replaceOne
  wrapped_findOne wrapped_deleteOne wrapped_deleteMany wrapped_find wrapped_findOneAndDelete
  wrapped_findOneAndReplace wrapped_findOneAndUpdate wrapped_insert wrapped_update

lemma get_default:
  "prop \<notin> set intercepted \<Longrightarrow> get cv target prop = M_other (others target prop)"
  by (simp add: get_def intercepted_def)

lemma lookup_default:
  "prop \<notin> set intercepted \<Longrightarrow> lookup obj prop = M_other (others obj prop)"
  by (simp add: lookup_def intercepted_def)

lemma wrapped_others:
  "prop \<notin> set intercepted \<Longrightarrow> others (convertRawCollection h cv) prop = others h prop"
  by (simp add: convertRawCollection_def Let_def get_default)

text \<open>Reading a property of the returned object is running the trap.\<close>

lemma lookup_proxy: "lookup (convertRawCollection h cv) prop = get cv h prop"
  by (simp add: lookup_def get_def convertRawCollection_def)

section \<open>Promises, modify-results and composition\<close>

lemma settle_promise_then:
  "settle (promise_then p f) = eff_bind (settle p) f"
  by (simp add: promise_then_def)

lemma eff_return_apply: "eff_return a s = (Inr a, s)"
  by (simp add: eff_return_def)

lemma convertModifyResult_None:
  "mr_value r = None \<Longrightarrow> convertModifyResult cv r t = (Inr r, t)"
  by (simp add: convertModifyResult_def Let_def eff_bind_def eff_return_def)

lemma convertModifyResult_Some:
  "mr_value r = Some S \<Longrightarrow> postFind cv S t = (Inr S', t') \<Longrightarrow>
   convertModifyResult cv r t = (Inr \<lparr>mr_value = Some S', \<dots> = modifyResult.more r\<rparr>, t')"
  by (simp add: convertModifyResult_def Let_def eff_bind_def eff_return_def)

lemma promise_then_then:
  "promise_then (promise_then p f) g = promise_then p (\<lambda>a. eff_bind (f a) g)"
  by (simp add: promise_then_def eff_bind_assoc)

lemma convertModifyResult_pure:
  "convertModifyResult (pure_converter pi pu pr pf df)
     = (\<lambda>r. eff_return \<lparr>mr_value = map_option pf (mr_value r), \<dots> = modifyResult.more r\<rparr>)"
proof
  fix r :: "('a, 'b) modifyResult_scheme"
  show "convertModifyResult (pure_converter pi pu pr pf df) r
     = eff_return \<lparr>mr_value = map_option pf (mr_value r), \<dots> = modifyResult.more r\<rparr>"
    by (cases "mr_value r")
       (simp_all add: convertModifyResult_def Let_def pure_fields eff_bind_return)
qed

lemma findOne_callback_compose:
  "(\<lambda>a. eff_bind (case a of None \<Rightarrow> eff_return None | Some doc \<Rightarrow> eff_return (Some (f doc)))
          (case_option (eff_return None) (\<lambda>doc. eff_return (Some (g doc)))))
   = case_option (eff_return None) (\<lambda>doc. eff_return (Some (g (f doc))))"
  by (auto simp: fun_eq_iff eff_bind_return split: option.splits)

lemma cursor_map_compose:
  "cursor_map (cursor_map c (\<lambda>a. eff_return (f a))) (\<lambda>a. eff_return (g a))
     = cursor_map c (\<lambda>a. eff_return (g (f a)))"
  by (auto simp: cursor_map_def eff_bind_def eff_return_def fun_eq_iff
      split: prod.splits sum.splits option.splits)

lemma get_compose:
  "get (pure_converter pi' pu' pr' pf' df') (convertRawCollection h (pure_converter pi pu pr pf df)) prop
   = get (pure_converter (\<lambda>x. pi (pi' x)) (\<lambda>x. pu (pu' x)) (\<lambda>x. pr (pr' x))
            (\<lambda>x. pf' (pf x)) (\<lambda>x. df (df' x))) h prop"
proof (cases "prop \<in> set intercepted")
  case False
  then show ?thesis by (simp add: get_default wrapped_others)
next
  case True
  then show ?thesis
    by (auto simp: intercepted_def get_def convert_def wrapped_members pure_fields
        eff_bind_return eff_bind_assoc promise_then_then array_map_pure
        findOne_callback_compose convertModifyResult_pure option.map_comp cursor_map_compose
        comp_def)
qed

lemma convertRawCollection_get_cong:
  assumes "\<And>prop. get cv h prop = get cv' h' prop"
  shows "convertRawCollection h cv = convertRawCollection h' cv'"
proof -
  from assms have "get cv h = get cv' h'" by (rule ext)
  then show ?thesis by (simp add: convertRawCollection_def)
qed

lemma findOne_callbacks_bind:
  "(\<lambda>a. eff_bind (case a of None \<Rightarrow> eff_return None
                     | Some doc \<Rightarrow> eff_bind (f doc) (\<lambda>doc'. eff_return (Some doc')))
              (case_option (eff_return None)
                 (\<lambda>doc. eff_bind (g doc) (\<lambda>doc'. eff_return (Some doc')))))
          = case_option (eff_return None)
              (\<lambda>S. eff_bind (f S) (\<lambda>S1. eff_bind (g S1) (\<lambda>S2. eff_return (Some S2))))"
  by (auto simp: fun_eq_iff eff_bind_return eff_bind_assoc split: option.splits)

lemma wrapped_twice_findOne:
  "findOne (convertRawCollection (convertRawCollection h c_in) c_out) F O'
     = eff_bind (findOne h F O')
         (\<lambda>p. eff_return (promise_then p
            (\<lambda>result. case result of
                 None \<Rightarrow> eff_return None
               | Some S \<Rightarrow> eff_bind (postFind c_in S)
                   (\<lambda>S1. eff_bind (postFind c_out S1) (\<lambda>S2. eff_return (Some S2))))))"
  by (simp add: wrapped_findOne eff_bind_assoc eff_bind_return promise_then_then
      findOne_callbacks_bind)

lemma findOne_callbacks_pure:
  "(\<lambda>result. case result of None \<Rightarrow> eff_return None
      | Some S \<Rightarrow> eff_bind (postFind (pure_converter pi pu pr pf df) S)
          (\<lambda>S1. eff_bind (postFind (pure_converter pi' pu' pr' pf' df') S1)
             (\<lambda>S2. eff_return (Some S2))))
   = (\<lambda>result. eff_return (map_option (\<lambda>S. pf' (pf S)) result))"
  by (auto simp: fun_eq_iff pure_fields eff_bind_return split: option.splits)

section \<open>Cursors\<close>

lemma snd_eff_bind_return: "snd (eff_bind m (\<lambda>a. eff_return (g a)) s) = snd (m s)"
  by (simp add: eff_bind_def eff_return_def split: prod.splits sum.splits)

lemma next_probe_map:
  "next_doc (cursor_map (probe_cursor c) (probe_transform f)) p
     = (case next_doc c (world p) of
          (Inl e, s') \<Rightarrow> (Inl e, p\<lparr>world := s'\<rparr>)
        | (Inr None, s') \<Rightarrow> (Inr None, p\<lparr>world := s'\<rparr>)
        | (Inr (Some a), s') \<Rightarrow>
            (case f a s' of
               (Inl e, s'') \<Rightarrow>
                 (Inl e, p\<lparr>world := s'', produced := produced p + 1,
                               transformed := transformed p + 1\<rparr>)
             | (Inr b, s'') \<Rightarrow>
                 (Inr (Some b), p\<lparr>world := s'', produced := produced p + 1,
                                     transformed := transformed p + 1\<rparr>)))"
  by (simp add: cursor_map_def probe_cursor_def probe_transform_def eff_bind_def eff_return_def
      split: prod.splits sum.splits option.splits)

lemma cursor_take_counts:
  "produced (snd (cursor_take k (cursor_map (probe_cursor c) (probe_transform f)) p))
     \<le> produced p + k
   \<and> transformed (snd (cursor_take k (cursor_map (probe_cursor c) (probe_transform f)) p))
     \<le> transformed p + k"
proof (induction k arbitrary: p)
  case 0
  show ?case by (simp add: eff_return_def)
next
  case (Suc k)
  let ?C = "cursor_map (probe_cursor c) (probe_transform f)"
  show ?case
  proof (cases "next_doc ?C p")
    case (Pair r p')
    note step = this
    show ?thesis
    proof (cases r)
      case (Inl e)
      with step have "snd (cursor_take (Suc k) ?C p) = p'"
        by (simp add: eff_bind_def)
      moreover from step Inl have "produced p' \<le> produced p + 1 \<and> transformed p' \<le> transformed p + 1"
        by (auto simp: next_probe_map split: prod.splits sum.splits option.splits)
      ultimately show ?thesis by simp
    next
      case (Inr v)
      show ?thesis
      proof (cases v)
        case None
        with step Inr have "snd (cursor_take (Suc k) ?C p) = p'"
          by (simp add: eff_bind_def eff_return_def)
        moreover from step Inr None have "produced p' = produced p \<and> transformed p' = transformed p"
          by (auto simp: next_probe_map split: prod.splits sum.splits option.splits)
        ultimately show ?thesis by simp
      next
        case (Some a)
        with step Inr have step': "next_doc ?C p = (Inr (Some a), p')"
          by simp
        have "snd (cursor_take (Suc k) ?C p) = snd (cursor_take k ?C p')"
          by (simp add: eff_bind_Inr [of "next_doc ?C" p "Some a" p', OF step']
              snd_eff_bind_return)
        moreover from step Inr Some have "produced p' = produced p + 1 \<and> transformed p' = transformed p + 1"
          by (auto simp: next_probe_map split: prod.splits sum.splits option.splits)
        moreover note Suc.IH [of p']
        ultimately show ?thesis by simp
      qed
    qed
  qed
qed

lemma cursor_take_map_pure:
  "cursor_take k (cursor_map c (\<lambda>d. eff_return (g d)))
     = eff_bind (cursor_take k c) (\<lambda>ds. eff_return (map g ds))"
proof (induction k)
  case 0
  show ?case by (simp add: eff_bind_return)
next
  case (Suc k)
  have n: "next_doc (cursor_map c (\<lambda>d. eff_return (g d)))
      = eff_bind (next_doc c) (\<lambda>r. eff_return (map_option g r))"
    by (auto simp: cursor_map_def eff_bind_def eff_return_def fun_eq_iff
        split: prod.splits sum.splits option.splits)
  show ?case
    by (simp only: cursor_take.simps n Suc.IH)
       (auto simp: eff_bind_def eff_return_def fun_eq_iff
        split: prod.splits sum.splits option.splits)
qed

section \<open>Pass-through\<close>

text \<open>
  Claim C1, as stated, has every invocation of a passed-through member reach the
  underlying handle with the same arguments. The member is returned unbound and runs with
  the wrapped handle as its receiver: on the example handle whose \<^verbatim>\<open>bulkWrite\<close> ends in
  \<^verbatim>\<open>this.insertOne\<close>, the call on the underlying handle inserts the document 1, the
  call on the wrapped handle runs \<^verbatim>\<open>preInsert\<close> and inserts 11.
\<close>

theorem passthrough_receiver_counterexample:
  "''bulkWrite'' \<notin> set intercepted
 \<and> call_other example_delegating ''bulkWrite'' 1 2 []
     = (Inr (Promise (eff_return 0)), [Called_other ''bulkWrite'' 1 2, Called_insertOne 1 2])
 \<and> call_other (convertRawCollection example_delegating example_converter) ''bulkWrite'' 1 2 []
     = (Inr (Promise (eff_return 0)),
        [Called_other ''bulkWrite'' 1 2, Called_preInsert 1, Called_insertOne 11 2])"
  by (simp add: intercepted_def call_other_def wrapped_others this_view_fields wrapped_insertOne
      example_delegating_def example_found_def example_converter_def spy_def
      spy_converter_fields record_call_bind record_call_apply)

text \<open>
  Claim C1, amended. For every property name outside the intercepted set, the \<^verbatim>\<open>get\<close>
  trap returns the member the underlying handle has under that name, unchanged: reading
  the property on the wrapped handle and on the underlying handle yields the same member.
  Called on the wrapped handle, the member runs with the wrapped handle as its receiver.
  A member that does not depend on its receiver does on the wrapped handle what it does on
  the underlying one: the same calls with the same arguments, the same result; on the
  recording handle, whose members are such, a call through the wrapper leaves exactly one
  entry in the log, with the caller's arguments, whatever the transforms. What a member
  calls through its receiver are the operations of the wrapped handle, the intercepted
  ones rewritten.
\<close>

theorem passthrough_identity:
  assumes "prop \<notin> set intercepted"
  shows "get cv h prop = M_other (others h prop)
       \<and> lookup (convertRawCollection h cv) prop = M_other (others h prop)
       \<and> lookup h prop = M_other (others h prop)
       \<and> others (convertRawCollection h cv) prop = others h prop
       \<and> call_other (convertRawCollection h' cv') prop
           = others h' prop (this_view (convertRawCollection h' cv'))
       \<and> ((\<forall>t. others h' prop t = m) \<longrightarrow> call_other (convertRawCollection h' cv') prop = m)
       \<and> ((\<forall>t t'. others h'' prop t = others h'' prop t') \<longrightarrow>
            call_other (convertRawCollection h'' cv'') prop = call_other h'' prop)
       \<and> call_other (convertRawCollection (spy w found mr) cv''') prop F O' log
           = (Inr (Promise (eff_return w)), log @ [Called_other prop F O'])
       \<and> insertOne (this_view (convertRawCollection h' cv')) = insertOne (convertRawCollection h' cv')
       \<and> insertMany (this_view (convertRawCollection h' cv')) = insertMany (convertRawCollection h' cv')
       \<and> updateOne (this_view (convertRawCollection h' cv')) = updateOne (convertRawCollection h' cv')
       \<and> updateMany (this_view (convertRawCollection h' cv')) = updateMany (convertRawCollection h' cv')
       \<and> replaceOne (this_view (convertRawCollection h' cv')) = replaceOne (convertRawCollection h' cv')
       \<and> findOne (this_view (convertRawCollection h' cv')) = findOne (convertRawCollection h' cv')
       \<and> deleteOne (this_view (convertRawCollection h' cv')) = deleteOne (convertRawCollection h' cv')
       \<and> deleteMany (this_view (convertRawCollection h' cv')) = deleteMany (convertRawCollection h' cv')
       \<and> find_op (this_view (convertRawCollection h' cv')) = find_op (convertRawCollection h' cv')
       \<and> findOneAndDelete (this_view (convertRawCollection h' cv')) = findOneAndDelete (convertRawCollection h' cv')
       \<and> findOneAndReplace (this_view (convertRawCollection h' cv')) = findOneAndReplace (convertRawCollection h' cv')
       \<and> findOneAndUpdate (this_view (convertRawCollection h' cv')) = findOneAndUpdate (convertRawCollection h' cv')
       \<and> insert_op (this_view (convertRawCollection h' cv')) = insert_op (convertRawCollection h' cv')
       \<and> update (this_view (convertRawCollection h' cv')) = update (convertRawCollection h' cv')"
proof -
  have 1: "get cv h prop = M_other (others h prop)"
    and 2: "lookup (convertRawCollection h cv) prop = M_other (others h prop)"
    and 3: "lookup h prop = M_other (others h prop)"
    and 4: "others (convertRawCollection h cv) prop = others h prop"
    using assms by (simp_all add: get_default lookup_default lookup_proxy wrapped_others)
  have 5: "call_other (convertRawCollection h' cv') prop
           = others h' prop (this_view (convertRawCollection h' cv'))"
    using assms by (simp add: call_other_def wrapped_others)
  have 6: "(\<forall>t. others h' prop t = m) \<longrightarrow> call_other (convertRawCollection h' cv') prop = m"
    using 5 by simp
  have 7: "(\<forall>t t'. others h'' prop t = others h'' prop t') \<longrightarrow>
            call_other (convertRawCollection h'' cv'') prop = call_other h'' prop"
  proof
    assume "\<forall>t t'. others h'' prop t = others h'' prop t'"
    then have "others h'' prop (this_view (convertRawCollection h'' cv''))
        = others h'' prop (this_view h'')"
      by blast
    with assms show "call_other (convertRawCollection h'' cv'') prop = call_other h'' prop"
      by (simp add: call_other_def wrapped_others)
  qed
  have 8: "call_other (convertRawCollection (spy w found mr) cv''') prop F O' log
           = (Inr (Promise (eff_return w)), log @ [Called_other prop F O'])"
    using assms by (simp add: call_other_def wrapped_others spy_def record_call_apply)
  from 1 2 3 4 5 6 7 8 show ?thesis by (simp add: this_view_fields)
qed

text \<open>
  The name \<^verbatim>\<open>bulkWrite\<close> on the recording handle, whose members do not depend on their
  receiver.
\<close>

theorem passthrough_identity_witness:
  "''bulkWrite'' \<notin> set intercepted
   \<and> (\<forall>t t'. others example_found ''bulkWrite'' t = others example_found ''bulkWrite'' t')
   \<and> lookup (convertRawCollection example_found example_converter) ''bulkWrite''
        = M_other (others example_found ''bulkWrite'')
   \<and> call_other (convertRawCollection example_found example_converter) ''bulkWrite''
        = call_other example_found ''bulkWrite''
   \<and> call_other (convertRawCollection example_found example_converter) ''bulkWrite'' 1 2 []
        = (Inr (Promise (eff_return 0)), [Called_other ''bulkWrite'' 1 2])"
proof -
  have h: "''bulkWrite'' \<notin> set intercepted" by (simp add: intercepted_def)
  have r: "\<forall>t t'. others example_found ''bulkWrite'' t = others example_found ''bulkWrite'' t'"
    by (simp add: example_found_def spy_def)
  note t = passthrough_identity [OF h]
  have l: "lookup (convertRawCollection example_found example_converter) ''bulkWrite''
        = M_other (others example_found ''bulkWrite'')"
    by (rule t [THEN conjunct2, THEN conjunct1])
  have c: "call_other (convertRawCollection example_found example_converter) ''bulkWrite''
        = call_other example_found ''bulkWrite''"
    by (rule t [THEN conjunct2, THEN conjunct2, THEN conjunct2, THEN conjunct2, THEN conjunct2,
          THEN conjunct2, THEN conjunct1, THEN mp, OF r])
  have v: "call_other example_found ''bulkWrite'' 1 2 []
        = (Inr (Promise (eff_return 0)), [Called_other ''bulkWrite'' 1 2])"
    by (simp add: call_other_def example_found_def spy_def record_call_apply)
  have v': "call_other (convertRawCollection example_found example_converter) ''bulkWrite'' 1 2 []
        = (Inr (Promise (eff_return 0)), [Called_other ''bulkWrite'' 1 2])"
    by (simp only: c v)
  show ?thesis
    by (rule conjI [OF h conjI [OF r conjI [OF l conjI [OF c v']]]])
qed

section \<open>Writes\<close>

text \<open>
  Claim C2. \<^verbatim>\<open>insertOne\<close> on the wrapped handle calls \<^verbatim>\<open>preInsert(doc)\<close> and then is
  the underlying \<^verbatim>\<open>insertOne\<close> on the transformed document and the same options: one
  call, whose result is returned as it is. \<^verbatim>\<open>insertMany\<close> and the legacy \<^verbatim>\<open>insert\<close>
  pass what \<^verbatim>\<open>docs.map(preInsert)\<close> yields, and \<^verbatim>\<open>map\<close> calls
  \<^verbatim>\<open>preInsert(doc, index, docs)\<close>. For a \<^verbatim>\<open>preInsert\<close> that ignores what comes after
  the document this is \<open>map preInsert docs\<close>, the transformed documents in the order and
  number of the input, the transform called once per document from left to right and the
  underlying operation once. For the \<^verbatim>\<open>preInsert\<close> with an optional second parameter
  it is not: \<^verbatim>\<open>insertOne\<close> sends 1, 2 and 3 as 11, 12 and 13, and \<^verbatim>\<open>insertMany\<close>
  and \<^verbatim>\<open>insert\<close> send the documents 1, 2, 3 as 11, 13, 15.
\<close>

theorem insert_calls_preInsert:
  "insertOne (convertRawCollection h cv) D O'
      = eff_bind (preInsert cv D None) (\<lambda>d. insertOne h d O')
 \<and> insertOne (convertRawCollection h (pure_converter pi pu pr pf df)) D O' = insertOne h (pi D) O'
 \<and> insertMany (convertRawCollection h cv) Ds O'
      = eff_bind (array_map (preInsert cv) Ds) (\<lambda>ds. insertMany h ds O')
 \<and> insertMany (convertRawCollection h (pure_converter pi pu pr pf df)) Ds O'
      = insertMany h (map pi Ds) O'
 \<and> insert_op (convertRawCollection h cv) Ds O'
      = eff_bind (array_map (preInsert cv) Ds) (\<lambda>ds. insert_op h ds O')
 \<and> insert_op (convertRawCollection h (pure_converter pi pu pr pf df)) Ds O'
      = insert_op h (map pi Ds) O'
 \<and> insertOne (convertRawCollection (spy w found mr) (spy_converter pi pu pr pf df)) D O' log
      = (Inr (Promise (eff_return w)), log @ [Called_preInsert D, Called_insertOne (pi D) O'])
 \<and> insertMany (convertRawCollection (spy w found mr) (spy_converter pi pu pr pf df)) Ds O' log
      = (Inr (Promise (eff_return w)),
         log @ map Called_preInsert Ds @ [Called_insertMany (map pi Ds) O'])
 \<and> insert_op (convertRawCollection (spy w found mr) (spy_converter pi pu pr pf df)) Ds O' log
      = (Inr (Promise (eff_return w)),
         log @ map Called_preInsert Ds @ [Called_insert (map pi Ds) O'])
 \<and> array_map g [a, b, c]
      = eff_bind (g a (Some (0, [a, b, c])))
          (\<lambda>x. eff_bind (g b (Some (1, [a, b, c])))
             (\<lambda>y. eff_bind (g c (Some (2, [a, b, c]))) (\<lambda>z. eff_return [x, y, z])))
 \<and> insertOne (convertRawCollection example_found example_indexing_converter) 1 2 []
      = (Inr (Promise (eff_return 0)), [Called_insertOne 11 2])
 \<and> insertOne (convertRawCollection example_found example_indexing_converter) 2 2 []
      = (Inr (Promise (eff_return 0)), [Called_insertOne 12 2])
 \<and> insertOne (convertRawCollection example_found example_indexing_converter) 3 2 []
      = (Inr (Promise (eff_return 0)), [Called_insertOne 13 2])
 \<and> insertMany (convertRawCollection example_found example_indexing_converter) [1, 2, 3] 2 []
      = (Inr (Promise (eff_return 0)), [Called_insertMany [11, 13, 15] 2])
 \<and> insert_op (convertRawCollection example_found example_indexing_converter) [1, 2, 3] 2 []
      = (Inr (Promise (eff_return 0)), [Called_insert [11, 13, 15] 2])"
proof -
  have general:
    "insertOne (convertRawCollection h cv) D O'
      = eff_bind (preInsert cv D None) (\<lambda>d. insertOne h d O')"
    "insertOne (convertRawCollection h (pure_converter pi pu pr pf df)) D O' = insertOne h (pi D) O'"
    "insertMany (convertRawCollection h cv) Ds O'
      = eff_bind (array_map (preInsert cv) Ds) (\<lambda>ds. insertMany h ds O')"
    "insertMany (convertRawCollection h (pure_converter pi pu pr pf df)) Ds O'
      = insertMany h (map pi Ds) O'"
    "insert_op (convertRawCollection h cv) Ds O'
      = eff_bind (array_map (preInsert cv) Ds) (\<lambda>ds. insert_op h ds O')"
    "insert_op (convertRawCollection h (pure_converter pi pu pr pf df)) Ds O'
      = insert_op h (map pi Ds) O'"
    by (simp_all add: wrapped_insertOne wrapped_insertMany wrapped_insert pure_fields
        array_map_pure eff_bind_return)
  have logs:
    "insertOne (convertRawCollection (spy w found mr) (spy_converter pi pu pr pf df)) D O' log
      = (Inr (Promise (eff_return w)), log @ [Called_preInsert D, Called_insertOne (pi D) O'])"
    "insertMany (convertRawCollection (spy w found mr) (spy_converter pi pu pr pf df)) Ds O' log
      = (Inr (Promise (eff_return w)),
         log @ map Called_preInsert Ds @ [Called_insertMany (map pi Ds) O'])"
    "insert_op (convertRawCollection (spy w found mr) (spy_converter pi pu pr pf df)) Ds O' log
      = (Inr (Promise (eff_return w)),
         log @ map Called_preInsert Ds @ [Called_insert (map pi Ds) O'])"
    by (simp_all add: wrapped_insertOne wrapped_insertMany wrapped_insert spy_converter_fields
        record_call_bind array_map_record_bind spy_def record_call_apply)
  have three: "array_map g [a, b, c]
      = eff_bind (g a (Some (0, [a, b, c])))
          (\<lambda>x. eff_bind (g b (Some (1, [a, b, c])))
             (\<lambda>y. eff_bind (g c (Some (2, [a, b, c]))) (\<lambda>z. eff_return [x, y, z])))"
    by (simp add: array_map_def eff_bind_return eff_bind_assoc numeral_2_eq_2)
  have p: "preInsert example_indexing_converter
      = (\<lambda>obj further. eff_return (obj + 10 + (case further of None \<Rightarrow> 0 | Some (k, arr) \<Rightarrow> k)))"
    by (simp add: example_indexing_converter_def)
  have one:
    "insertOne (convertRawCollection example_found example_indexing_converter) 1 2 []
      = (Inr (Promise (eff_return 0)), [Called_insertOne 11 2])"
    "insertOne (convertRawCollection example_found example_indexing_converter) 2 2 []
      = (Inr (Promise (eff_return 0)), [Called_insertOne 12 2])"
    "insertOne (convertRawCollection example_found example_indexing_converter) 3 2 []
      = (Inr (Promise (eff_return 0)), [Called_insertOne 13 2])"
    by (simp_all add: wrapped_insertOne p eff_bind_return example_found_def spy_def
        record_call_apply)
  have many:
    "insertMany (convertRawCollection example_found example_indexing_converter) [1, 2, 3] 2 []
      = (Inr (Promise (eff_return 0)), [Called_insertMany [11, 13, 15] 2])"
    "insert_op (convertRawCollection example_found example_indexing_converter) [1, 2, 3] 2 []
      = (Inr (Promise (eff_return 0)), [Called_insert [11, 13, 15] 2])"
    by (simp_all add: wrapped_insertMany wrapped_insert p array_map_def eff_bind_return
        example_found_def spy_def record_call_apply)
  from general logs three one many show ?thesis by blast
qed

text \<open>
  Claim C5. \<^verbatim>\<open>deleteOne\<close> and \<^verbatim>\<open>deleteMany\<close> on the wrapped handle run
  \<^verbatim>\<open>deleteFilter\<close> on the filter and then are the underlying operation on the rewritten
  filter and the same options, its result returned as it is; on the recording handle the
  log holds the one transform call and the one underlying call.
\<close>

theorem delete_applies_deleteFilter:
  "deleteOne (convertRawCollection h cv) F O'
      = eff_bind (deleteFilter cv F) (\<lambda>f. deleteOne h f O')
 \<and> deleteOne (convertRawCollection h (pure_converter pi pu pr pf df)) F O'
      = deleteOne h (df F) O'
 \<and> deleteMany (convertRawCollection h cv) F O'
      = eff_bind (deleteFilter cv F) (\<lambda>f. deleteMany h f O')
 \<and> deleteMany (convertRawCollection h (pure_converter pi pu pr pf df)) F O'
      = deleteMany h (df F) O'
 \<and> deleteOne (convertRawCollection (spy w found mr) (spy_converter pi pu pr pf df)) F O' log
      = (Inr (Promise (eff_return w)), log @ [Called_deleteFilter F, Called_deleteOne (df F) O'])
 \<and> deleteMany (convertRawCollection (spy w found mr) (spy_converter pi pu pr pf df)) F O' log
      = (Inr (Promise (eff_return w)), log @ [Called_deleteFilter F, Called_deleteMany (df F) O'])"
  by (simp add: wrapped_deleteOne wrapped_deleteMany pure_fields
      spy_converter_fields eff_bind_return record_call_bind spy_def record_call_apply)

text \<open>
  Claim C9. In the intercepted writes only the argument the rewrite rule names passes
  through a transform. \<^verbatim>\<open>updateOne\<close>, \<^verbatim>\<open>updateMany\<close>, the legacy \<^verbatim>\<open>update\<close> and
  \<^verbatim>\<open>findOneAndUpdate\<close> call the underlying operation with the caller's filter and
  options and with \<^verbatim>\<open>preUpdate\<close> of the update specification; \<^verbatim>\<open>replaceOne\<close> and
  \<^verbatim>\<open>findOneAndReplace\<close> do so with \<^verbatim>\<open>preReplace\<close> of the replacement. On the
  recording handle the log holds one transform call, on that argument alone, and one
  underlying call.
\<close>

theorem update_replace_frame:
  "updateOne (convertRawCollection h cv) F U O'
      = eff_bind (preUpdate cv U) (\<lambda>u. updateOne h F u O')
 \<and> updateMany (convertRawCollection h cv) F U O'
      = eff_bind (preUpdate cv U) (\<lambda>u. updateMany h F u O')
 \<and> update (convertRawCollection h cv) F U O'
      = eff_bind (preUpdate cv U) (\<lambda>u. update h F u O')
 \<and> findOneAndUpdate (convertRawCollection h cv) F U O'
      = eff_bind (preUpdate cv U) (\<lambda>u. eff_bind (findOneAndUpdate h F u O')
          (\<lambda>p. eff_return (promise_then p (convertModifyResult cv))))
 \<and> replaceOne (convertRawCollection h cv) F R O'
      = eff_bind (preReplace cv R) (\<lambda>r. replaceOne h F r O')
 \<and> findOneAndReplace (convertRawCollection h cv) F R O'
      = eff_bind (preReplace cv R) (\<lambda>r. eff_bind (findOneAndReplace h F r O')
          (\<lambda>p. eff_return (promise_then p (convertModifyResult cv))))
 \<and> updateOne (convertRawCollection h (pure_converter pi pu pr pf df)) F U O'
      = updateOne h F (pu U) O'
 \<and> updateMany (convertRawCollection h (pure_converter pi pu pr pf df)) F U O'
      = updateMany h F (pu U) O'
 \<and> update (convertRawCollection h (pure_converter pi pu pr pf df)) F U O'
      = update h F (pu U) O'
 \<and> findOneAndUpdate (convertRawCollection h (pure_converter pi pu pr pf df)) F U O'
      = eff_bind (findOneAndUpdate h F (pu U) O')
          (\<lambda>p. eff_return (promise_then p (convertModifyResult (pure_converter pi pu pr pf df))))
 \<and> replaceOne (convertRawCollection h (pure_converter pi pu pr pf df)) F R O'
      = replaceOne h F (pr R) O'
 \<and> findOneAndReplace (convertRawCollection h (pure_converter pi pu pr pf df)) F R O'
      = eff_bind (findOneAndReplace h F (pr R) O')
          (\<lambda>p. eff_return (promise_then p (convertModifyResult (pure_converter pi pu pr pf df))))
 \<and> snd (updateOne (convertRawCollection (spy w found mr) (spy_converter pi pu pr pf df)) F U O' log)
      = log @ [Called_preUpdate U, Called_updateOne F (pu U) O']
 \<and> snd (updateMany (convertRawCollection (spy w found mr) (spy_converter pi pu pr pf df)) F U O' log)
      = log @ [Called_preUpdate U, Called_updateMany F (pu U) O']
 \<and> snd (update (convertRawCollection (spy w found mr) (spy_converter pi pu pr pf df)) F U O' log)
      = log @ [Called_preUpdate U, Called_update F (pu U) O']
 \<and> snd (findOneAndUpdate (convertRawCollection (spy w found mr) (spy_converter pi pu pr pf df)) F U O' log)
      = log @ [Called_preUpdate U, Called_findOneAndUpdate F (pu U) O']
 \<and> snd (replaceOne (convertRawCollection (spy w found mr) (spy_converter pi pu pr pf df)) F R O' log)
      = log @ [Called_preReplace R, Called_replaceOne F (pr R) O']
 \<and> snd (findOneAndReplace (convertRawCollection (spy w found mr) (spy_converter pi pu pr pf df)) F R O' log)
      = log @ [Called_preReplace R, Called_findOneAndReplace F (pr R) O']"
  by (simp add: wrapped_updateOne wrapped_updateMany wrapped_update wrapped_findOneAndUpdate
      wrapped_replaceOne wrapped_findOneAndReplace pure_fields spy_converter_fields
      eff_bind_return record_call_bind spy_def record_call_apply eff_return_apply)

text \<open>
  Claim C10, as stated, has a legacy delete bypass the delete-filter rewrite entirely.
  The trap returns the underlying \<^verbatim>\<open>remove\<close> unbound, and it runs with the wrapped
  handle as its receiver: on the example handle whose \<^verbatim>\<open>remove\<close> ends in
  \<^verbatim>\<open>this.deleteMany\<close>, the filter 5 reaches the underlying \<^verbatim>\<open>deleteMany\<close> as 5
  when \<^verbatim>\<open>remove\<close> is called on the underlying handle, and as \<open>deleteFilter 5 = 55\<close>
  when it is called on the wrapped handle.
\<close>

theorem remove_receiver_counterexample:
  "call_other example_delegating ''remove'' 5 6 []
     = (Inr (Promise (eff_return 0)), [Called_other ''remove'' 5 6, Called_deleteMany 5 6])
 \<and> call_other (convertRawCollection example_delegating example_converter) ''remove'' 5 6 []
     = (Inr (Promise (eff_return 0)),
        [Called_other ''remove'' 5 6, Called_deleteFilter 5, Called_deleteMany 55 6])"
  by (simp add: intercepted_def call_other_def wrapped_others this_view_fields
      wrapped_deleteMany example_delegating_def example_found_def example_converter_def spy_def
      spy_converter_fields record_call_bind record_call_apply)

text \<open>
  Claim C10, amended. \<^verbatim>\<open>remove\<close> is listed in \<^verbatim>\<open>middlewareMethods\<close> but has no case
  in the \<^verbatim>\<open>switch\<close>, unlike the legacy \<^verbatim>\<open>insert\<close> and \<^verbatim>\<open>update\<close>: the wrapped
  handle returns the underlying \<^verbatim>\<open>remove\<close> member itself, and the wrapper applies
  \<^verbatim>\<open>deleteFilter\<close> to nothing on the way. The member runs with the wrapped handle as
  its receiver: a \<^verbatim>\<open>remove\<close> that does not go through its receiver, like that of the
  recording handle, gets the caller's filter to the underlying handle as it is, without
  \<^verbatim>\<open>deleteFilter\<close>; the \<^verbatim>\<open>deleteMany\<close> and \<^verbatim>\<open>deleteOne\<close> that a \<^verbatim>\<open>remove\<close>
  reaches through its receiver are the rewriting ones of the wrapped handle.
\<close>

theorem remove_not_intercepted:
  "''remove'' \<in> set middlewareMethods
 \<and> ''insert'' \<in> set intercepted \<and> ''update'' \<in> set intercepted
 \<and> ''remove'' \<notin> set intercepted
 \<and> get cv h ''remove'' = M_other (others h ''remove'')
 \<and> lookup (convertRawCollection h cv) ''remove'' = M_other (others h ''remove'')
 \<and> others (convertRawCollection h cv) ''remove'' = others h ''remove''
 \<and> call_other (convertRawCollection h' cv') ''remove''
      = others h' ''remove'' (this_view (convertRawCollection h' cv'))
 \<and> deleteMany (this_view (convertRawCollection h' cv')) F O'
      = eff_bind (deleteFilter cv' F) (\<lambda>f. deleteMany h' f O')
 \<and> deleteOne (this_view (convertRawCollection h' cv')) F O'
      = eff_bind (deleteFilter cv' F) (\<lambda>f. deleteOne h' f O')
 \<and> call_other (convertRawCollection (spy w found mr) (spy_converter pi pu pr pf df)) ''remove''
      F O' log
      = (Inr (Promise (eff_return w)), log @ [Called_other ''remove'' F O'])"
proof -
  have r: "''remove'' \<notin> set intercepted" by (simp add: intercepted_def)
  have m: "''remove'' \<in> set middlewareMethods" by (simp add: middlewareMethods_def)
  have i: "''insert'' \<in> set intercepted \<and> ''update'' \<in> set intercepted"
    by (simp add: intercepted_def)
  have d: "deleteMany (this_view (convertRawCollection h' cv')) F O'
      = eff_bind (deleteFilter cv' F) (\<lambda>f. deleteMany h' f O')"
    "deleteOne (this_view (convertRawCollection h' cv')) F O'
      = eff_bind (deleteFilter cv' F) (\<lambda>f. deleteOne h' f O')"
    by (simp_all add: this_view_fields wrapped_deleteMany wrapped_deleteOne)
  show ?thesis
    using r m i d
    by (simp add: get_default lookup_proxy wrapped_others call_other_def spy_def
        record_call_apply)
qed

section \<open>Reads\<close>

text \<open>
  Claim C3. When the underlying \<^verbatim>\<open>findOne\<close> returns a promise \<open>p\<close>, the wrapped
  \<^verbatim>\<open>findOne\<close> returns, in the same world, a promise \<open>q\<close> such that: whenever \<open>p\<close> is
  fulfilled with a document \<open>S\<close> and \<^verbatim>\<open>postFind\<close> returns \<open>S'\<close> for it, \<open>q\<close> is fulfilled
  with \<open>S'\<close>; whenever \<open>p\<close> is fulfilled with \<^verbatim>\<open>null\<close>, so is \<open>q\<close>, in the very world
  \<open>p\<close> left, for every \<^verbatim>\<open>postFind\<close>, also one that changes the world: it is not called.
\<close>

theorem findOne_applies_postFind:
  assumes "findOne h F O' s0 = (Inr p, s1)"
  shows "\<exists>q. findOne (convertRawCollection h cv) F O' s0 = (Inr q, s1)
     \<and> (\<forall>t t' S S' t''. settle p t = (Inr (Some S), t') \<longrightarrow> postFind cv S t' = (Inr S', t'')
           \<longrightarrow> settle q t = (Inr (Some S'), t''))
     \<and> (\<forall>t t'. settle p t = (Inr None, t') \<longrightarrow> settle q t = (Inr None, t'))"
  using assms
  by (simp add: wrapped_findOne eff_bind_def eff_return_def settle_promise_then)

text \<open>
  A stored document 7 and a missing one on the recording handles; the log shows the call
  of \<^verbatim>\<open>postFind\<close> in the first case and none in the second.
\<close>

theorem findOne_applies_postFind_witness:
  "findOne example_found 5 6 [] = (Inr (Promise (eff_return (Some 7))), [Called_findOne 5 6])
 \<and> (\<exists>q. findOne (convertRawCollection example_found example_converter) 5 6 []
           = (Inr q, [Called_findOne 5 6])
        \<and> settle q [Called_findOne 5 6] = (Inr (Some 47), [Called_findOne 5 6, Called_postFind 7]))
 \<and> findOne example_missing 5 6 [] = (Inr (Promise (eff_return None)), [Called_findOne 5 6])
 \<and> (\<exists>q. findOne (convertRawCollection example_missing example_converter) 5 6 []
           = (Inr q, [Called_findOne 5 6])
        \<and> settle q [Called_findOne 5 6] = (Inr None, [Called_findOne 5 6]))"
proof -
  have f: "findOne example_found 5 6 [] = (Inr (Promise (eff_return (Some 7))), [Called_findOne 5 6])"
    by (simp add: example_found_def spy_def record_call_apply)
  have m: "findOne example_missing 5 6 [] = (Inr (Promise (eff_return None)), [Called_findOne 5 6])"
    by (simp add: example_missing_def spy_def record_call_apply)
  have pf: "postFind example_converter 7 [Called_findOne 5 6]
      = (Inr 47, [Called_findOne 5 6, Called_postFind 7])"
    by (simp add: example_converter_def spy_converter_fields record_call_apply)
  from findOne_applies_postFind [OF f, of example_converter]
  have 1: "\<exists>q. findOne (convertRawCollection example_found example_converter) 5 6 []
           = (Inr q, [Called_findOne 5 6])
        \<and> settle q [Called_findOne 5 6] = (Inr (Some 47), [Called_findOne 5 6, Called_postFind 7])"
  proof (elim exE conjE)
    fix q
    assume q: "findOne (convertRawCollection example_found example_converter) 5 6 []
            = (Inr q, [Called_findOne 5 6])"
      and qs: "\<forall>t t' S S' t''. settle (Promise (eff_return (Some 7))) t = (Inr (Some S), t') \<longrightarrow>
            postFind example_converter S t' = (Inr S', t'') \<longrightarrow> settle q t = (Inr (Some S'), t'')"
    have "settle q [Called_findOne 5 6] = (Inr (Some 47), [Called_findOne 5 6, Called_postFind 7])"
      by (rule qs [rule_format, OF _ pf]) (simp add: eff_return_def)
    with q show ?thesis by blast
  qed
  from findOne_applies_postFind [OF m, of example_converter]
  have 2: "\<exists>q. findOne (convertRawCollection example_missing example_converter) 5 6 []
           = (Inr q, [Called_findOne 5 6])
        \<and> settle q [Called_findOne 5 6] = (Inr None, [Called_findOne 5 6])"
  proof (elim exE conjE)
    fix q
    assume q: "findOne (convertRawCollection example_missing example_converter) 5 6 []
            = (Inr q, [Called_findOne 5 6])"
      and qn: "\<forall>t t'. settle (Promise (eff_return None)) t = (Inr None, t') \<longrightarrow>
            settle q t = (Inr None, t')"
    have "settle q [Called_findOne 5 6] = (Inr None, [Called_findOne 5 6])"
      by (rule qn [rule_format]) (simp add: eff_return_def)
    with q show ?thesis by blast
  qed
  from f m 1 2 show ?thesis by blast
qed

text \<open>
  Claim C4. When the underlying \<^verbatim>\<open>findOneAndDelete\<close>, \<^verbatim>\<open>findOneAndReplace\<close> or
  \<^verbatim>\<open>findOneAndUpdate\<close> returns a promise \<open>p\<close>, the wrapped operation returns \<open>p\<close>
  followed by \<^verbatim>\<open>convertModifyResult\<close>. When \<open>p\<close> is fulfilled with a result \<open>r\<close> that
  carries a document \<open>S\<close>, the new promise is fulfilled with the result whose document is
  what \<^verbatim>\<open>postFind\<close> returned for \<open>S\<close> and whose other fields are those of \<open>r\<close>; when
  \<open>r\<close> carries no document, it is fulfilled with \<open>r\<close> itself in the world \<open>p\<close> left,
  \<^verbatim>\<open>postFind\<close> not being called.
\<close>

theorem modify_result_rewrite:
  "(findOneAndDelete h F O' s0 = (Inr p, s1) \<longrightarrow>
      findOneAndDelete (convertRawCollection h cv) F O' s0
        = (Inr (promise_then p (convertModifyResult cv)), s1))
 \<and> (preReplace cv R s0 = (Inr R', s0') \<longrightarrow> findOneAndReplace h F R' O' s0' = (Inr p, s1) \<longrightarrow>
      findOneAndReplace (convertRawCollection h cv) F R O' s0
        = (Inr (promise_then p (convertModifyResult cv)), s1))
 \<and> (preUpdate cv U s0 = (Inr U', s0') \<longrightarrow> findOneAndUpdate h F U' O' s0' = (Inr p, s1) \<longrightarrow>
      findOneAndUpdate (convertRawCollection h cv) F U O' s0
        = (Inr (promise_then p (convertModifyResult cv)), s1))
 \<and> (settle p t = (Inr r, t') \<longrightarrow> mr_value r = Some S \<longrightarrow> postFind cv S t' = (Inr S', t'') \<longrightarrow>
      settle (promise_then p (convertModifyResult cv)) t
        = (Inr \<lparr>mr_value = Some S', \<dots> = modifyResult.more r\<rparr>, t''))
 \<and> (settle p t = (Inr r, t') \<longrightarrow> mr_value r = None \<longrightarrow>
      settle (promise_then p (convertModifyResult cv)) t = (Inr r, t'))"
  by (simp add: wrapped_findOneAndDelete wrapped_findOneAndReplace wrapped_findOneAndUpdate
      eff_bind_def eff_return_def settle_promise_then convertModifyResult_None
      convertModifyResult_Some)

text \<open>
  The three operations on the recording handles, with a result that has a second field
  \<open>ok\<close>: the document 7 becomes 47, \<open>ok\<close> stays 1.
\<close>

theorem modify_result_rewrite_witness:
  "findOneAndDelete (convertRawCollection example_missing example_converter) 5 8 []
     = (Inr (promise_then (Promise (eff_return \<lparr>mr_value = None, ok = 1\<rparr>))
               (convertModifyResult example_converter)), [Called_findOneAndDelete 5 8])
 \<and> settle (promise_then (Promise (eff_return \<lparr>mr_value = None, ok = 1\<rparr>))
               (convertModifyResult example_converter)) [Called_findOneAndDelete 5 8]
     = (Inr \<lparr>mr_value = None, ok = 1\<rparr>, [Called_findOneAndDelete 5 8])
 \<and> findOneAndReplace (convertRawCollection example_found example_converter) 5 6 8 []
     = (Inr (promise_then (Promise (eff_return \<lparr>mr_value = Some 7, ok = 1\<rparr>))
               (convertModifyResult example_converter)),
        [Called_preReplace 6, Called_findOneAndReplace 5 36 8])
 \<and> findOneAndUpdate (convertRawCollection example_found example_converter) 5 6 8 []
     = (Inr (promise_then (Promise (eff_return \<lparr>mr_value = Some 7, ok = 1\<rparr>))
               (convertModifyResult example_converter)),
        [Called_preUpdate 6, Called_findOneAndUpdate 5 26 8])
 \<and> settle (promise_then (Promise (eff_return \<lparr>mr_value = Some 7, ok = 1\<rparr>))
               (convertModifyResult example_converter))
        [Called_preUpdate 6, Called_findOneAndUpdate 5 26 8]
     = (Inr \<lparr>mr_value = Some 47, ok = 1\<rparr>,
        [Called_preUpdate 6, Called_findOneAndUpdate 5 26 8, Called_postFind 7])"
proof -
  let ?none = "Promise (eff_return \<lparr>mr_value = None, ok = 1\<rparr>)
                 :: (example_log, nat, nat example_result) promise"
  let ?some = "Promise (eff_return \<lparr>mr_value = Some 7, ok = 1\<rparr>)
                 :: (example_log, nat, nat example_result) promise"
  have d: "findOneAndDelete example_missing 5 8 [] = (Inr ?none, [Called_findOneAndDelete 5 8])"
    by (simp add: example_missing_def spy_def record_call_apply)
  have r1: "preReplace example_converter 6 [] = (Inr 36, [Called_preReplace 6])"
    by (simp add: example_converter_def spy_converter_fields record_call_apply)
  have r2: "findOneAndReplace example_found 5 36 8 [Called_preReplace 6]
      = (Inr ?some, [Called_preReplace 6, Called_findOneAndReplace 5 36 8])"
    by (simp add: example_found_def spy_def record_call_apply)
  have u1: "preUpdate example_converter 6 [] = (Inr 26, [Called_preUpdate 6])"
    by (simp add: example_converter_def spy_converter_fields record_call_apply)
  have u2: "findOneAndUpdate example_found 5 26 8 [Called_preUpdate 6]
      = (Inr ?some, [Called_preUpdate 6, Called_findOneAndUpdate 5 26 8])"
    by (simp add: example_found_def spy_def record_call_apply)
  have sn: "settle ?none [Called_findOneAndDelete 5 8]
      = (Inr \<lparr>mr_value = None, ok = 1\<rparr>, [Called_findOneAndDelete 5 8])"
    by (simp add: eff_return_def)
  have ss: "settle ?some [Called_preUpdate 6, Called_findOneAndUpdate 5 26 8]
      = (Inr \<lparr>mr_value = Some 7, ok = 1\<rparr>, [Called_preUpdate 6, Called_findOneAndUpdate 5 26 8])"
    by (simp add: eff_return_def)
  have pf: "postFind example_converter 7 [Called_preUpdate 6, Called_findOneAndUpdate 5 26 8]
      = (Inr 47, [Called_preUpdate 6, Called_findOneAndUpdate 5 26 8, Called_postFind 7])"
    by (simp add: example_converter_def spy_converter_fields record_call_apply)
  note t = modify_result_rewrite
  have 1: "findOneAndDelete (convertRawCollection example_missing example_converter) 5 8 []
     = (Inr (promise_then ?none (convertModifyResult example_converter)),
        [Called_findOneAndDelete 5 8])"
    by (rule t [THEN conjunct1, rule_format, OF d])
  have 2: "settle (promise_then ?none (convertModifyResult example_converter))
        [Called_findOneAndDelete 5 8]
     = (Inr \<lparr>mr_value = None, ok = 1\<rparr>, [Called_findOneAndDelete 5 8])"
    by (rule t [THEN conjunct2, THEN conjunct2, THEN conjunct2, THEN conjunct2, rule_format,
          OF sn]) simp
  have 3: "findOneAndReplace (convertRawCollection example_found example_converter) 5 6 8 []
     = (Inr (promise_then ?some (convertModifyResult example_converter)),
        [Called_preReplace 6, Called_findOneAndReplace 5 36 8])"
    by (rule t [THEN conjunct2, THEN conjunct1, rule_format, OF r1 r2])
  have 4: "findOneAndUpdate (convertRawCollection example_found example_converter) 5 6 8 []
     = (Inr (promise_then ?some (convertModifyResult example_converter)),
        [Called_preUpdate 6, Called_findOneAndUpdate 5 26 8])"
    by (rule t [THEN conjunct2, THEN conjunct2, THEN conjunct1, rule_format, OF u1 u2])
  have 5: "settle (promise_then ?some (convertModifyResult example_converter))
        [Called_preUpdate 6, Called_findOneAndUpdate 5 26 8]
     = (Inr \<lparr>mr_value = Some 47, ok = 1\<rparr>,
        [Called_preUpdate 6, Called_findOneAndUpdate 5 26 8, Called_postFind 7])"
    using t [THEN conjunct2, THEN conjunct2, THEN conjunct2, THEN conjunct1, rule_format,
          OF ss _ pf]
    by simp
  from 1 2 3 4 5 show ?thesis by simp
qed

section \<open>Wrapping a wrapped handle\<close>

text \<open>
  Claim C7. Wrapping an already wrapped handle composes the two sets of transforms, the
  wrapped handle being treated like any other: \<^verbatim>\<open>insertOne\<close> on the doubly wrapped
  handle passes \<open>preInsert_inner (preInsert_outer D)\<close> to the underlying handle, and
  \<^verbatim>\<open>findOne\<close> resolves to \<open>postFind_outer (postFind_inner S)\<close>. For pure transforms the
  doubly wrapped handle is the handle wrapped once with the composed transforms, in all
  its members. On the recording handle the log shows the order of the calls.
\<close>

theorem double_wrap_composes:
  "insertOne (convertRawCollection (convertRawCollection h c_in) c_out) D O'
     = eff_bind (preInsert c_out D None)
         (\<lambda>d1. eff_bind (preInsert c_in d1 None) (\<lambda>d0. insertOne h d0 O'))
 \<and> insertOne (convertRawCollection (convertRawCollection h (pure_converter pi pu pr pf df))
        (pure_converter pi' pu' pr' pf' df')) D O'
     = insertOne h (pi (pi' D)) O'
 \<and> findOne (convertRawCollection (convertRawCollection h c_in) c_out) F O'
     = eff_bind (findOne h F O')
         (\<lambda>p. eff_return (promise_then p
            (\<lambda>result. case result of
                 None \<Rightarrow> eff_return None
               | Some S \<Rightarrow> eff_bind (postFind c_in S)
                   (\<lambda>S1. eff_bind (postFind c_out S1) (\<lambda>S2. eff_return (Some S2))))))
 \<and> findOne (convertRawCollection (convertRawCollection h (pure_converter pi pu pr pf df))
        (pure_converter pi' pu' pr' pf' df')) F O'
     = eff_bind (findOne h F O')
         (\<lambda>p. eff_return (promise_then p
            (\<lambda>result. eff_return (map_option (\<lambda>S. pf' (pf S)) result))))
 \<and> convertRawCollection (convertRawCollection h (pure_converter pi pu pr pf df))
        (pure_converter pi' pu' pr' pf' df')
     = convertRawCollection h
        (pure_converter (\<lambda>x. pi (pi' x)) (\<lambda>x. pu (pu' x)) (\<lambda>x. pr (pr' x))
           (\<lambda>x. pf' (pf x)) (\<lambda>x. df (df' x)))
 \<and> insertOne (convertRawCollection (convertRawCollection (spy w found mr)
        (spy_converter pi pu pr pf df)) (spy_converter pi' pu' pr' pf' df')) D O' log
     = (Inr (Promise (eff_return w)),
        log @ [Called_preInsert D, Called_preInsert (pi' D), Called_insertOne (pi (pi' D)) O'])
 \<and> await (findOne (convertRawCollection (convertRawCollection (spy w (Some S) mr)
        (spy_converter pi pu pr pf df)) (spy_converter pi' pu' pr' pf' df')) F O') log
     = (Inr (Some (pf' (pf S))),
        log @ [Called_findOne F O', Called_postFind S, Called_postFind (pf S)])"
proof -
  have 1: "insertOne (convertRawCollection (convertRawCollection h c_in) c_out) D O'
     = eff_bind (preInsert c_out D None)
         (\<lambda>d1. eff_bind (preInsert c_in d1 None) (\<lambda>d0. insertOne h d0 O'))"
    by (simp add: wrapped_insertOne)
  have 2: "insertOne (convertRawCollection (convertRawCollection h (pure_converter pi pu pr pf df))
        (pure_converter pi' pu' pr' pf' df')) D O'
     = insertOne h (pi (pi' D)) O'"
    by (simp add: wrapped_insertOne pure_fields eff_bind_return)
  have 4: "findOne (convertRawCollection (convertRawCollection h (pure_converter pi pu pr pf df))
        (pure_converter pi' pu' pr' pf' df')) F O'
     = eff_bind (findOne h F O')
         (\<lambda>p. eff_return (promise_then p
            (\<lambda>result. eff_return (map_option (\<lambda>S. pf' (pf S)) result))))"
    by (simp add: wrapped_twice_findOne findOne_callbacks_pure)
  have 5: "convertRawCollection (convertRawCollection h (pure_converter pi pu pr pf df))
        (pure_converter pi' pu' pr' pf' df')
     = convertRawCollection h
        (pure_converter (\<lambda>x. pi (pi' x)) (\<lambda>x. pu (pu' x)) (\<lambda>x. pr (pr' x))
           (\<lambda>x. pf' (pf x)) (\<lambda>x. df (df' x)))"
    by (rule convertRawCollection_get_cong) (rule get_compose)
  have 6: "insertOne (convertRawCollection (convertRawCollection (spy w found mr)
        (spy_converter pi pu pr pf df)) (spy_converter pi' pu' pr' pf' df')) D O' log
     = (Inr (Promise (eff_return w)),
        log @ [Called_preInsert D, Called_preInsert (pi' D), Called_insertOne (pi (pi' D)) O'])"
    by (simp add: wrapped_insertOne spy_converter_fields record_call_bind spy_def
        record_call_apply)
  have 7: "await (findOne (convertRawCollection (convertRawCollection (spy w (Some S) mr)
        (spy_converter pi pu pr pf df)) (spy_converter pi' pu' pr' pf' df')) F O') log
     = (Inr (Some (pf' (pf S))),
        log @ [Called_findOne F O', Called_postFind S, Called_postFind (pf S)])"
    by (simp add: wrapped_twice_findOne await_def spy_converter_fields eff_bind_assoc
        eff_bind_return record_call_bind spy_def settle_promise_then eff_return_apply)
  from 1 2 4 5 6 7 wrapped_twice_findOne [of h c_in c_out F O'] show ?thesis by blast
qed

text \<open>
  Claim C6. \<^verbatim>\<open>find\<close> on the wrapped handle calls the underlying \<^verbatim>\<open>find\<close> and
  installs \<^verbatim>\<open>postFind\<close> on the cursor it returned, in the world the underlying call
  left: no document is produced and no transform is called at that moment. With the
  cursor of the spec, whose transform runs inside \<^verbatim>\<open>next\<close>, asking the mapped cursor
  for its first \<open>k\<close> documents makes the underlying cursor produce at most \<open>k\<close> documents
  and calls the transform at most \<open>k\<close> times, whatever the cursor and the transform are;
  the documents come transformed in the order the underlying cursor produced them. The
  last part is a run on five documents of which two are consumed.
\<close>

theorem find_is_lazy:
  "find_op (convertRawCollection h cv) F O' s
     = (case find_op h F O' s of
          (Inl e, s') \<Rightarrow> (Inl e, s')
        | (Inr c, s') \<Rightarrow> (Inr (cursor_map c (postFind cv)), s'))
 \<and> produced (snd (cursor_take k (cursor_map (probe_cursor c0) (probe_transform f)) p))
     \<le> produced p + k
 \<and> transformed (snd (cursor_take k (cursor_map (probe_cursor c0) (probe_transform f)) p))
     \<le> transformed p + k
 \<and> cursor_take k (cursor_map c1 (\<lambda>d. eff_return (g d)))
     = eff_bind (cursor_take k c1) (\<lambda>ds. eff_return (map g ds))
 \<and> cursor_take (Suc (Suc 0))
      (cursor_map (probe_cursor list_cursor) (probe_transform (\<lambda>d. eff_return (d + 40))))
      \<lparr>world = [1, 2, 3, 4, 5 :: nat], produced = 0, transformed = 0\<rparr>
     = (Inr [41, 42], \<lparr>world = [3, 4, 5], produced = 2, transformed = 2\<rparr>)"
proof -
  have 1: "find_op (convertRawCollection h cv) F O' s
     = (case find_op h F O' s of
          (Inl e, s') \<Rightarrow> (Inl e, s')
        | (Inr c, s') \<Rightarrow> (Inr (cursor_map c (postFind cv)), s'))"
    by (simp add: wrapped_find eff_bind_def eff_return_def split: prod.splits sum.splits)
  have 5: "cursor_take (Suc (Suc 0))
      (cursor_map (probe_cursor list_cursor) (probe_transform (\<lambda>d. eff_return (d + 40))))
      \<lparr>world = [1, 2, 3, 4, 5 :: nat], produced = 0, transformed = 0\<rparr>
     = (Inr [41, 42], \<lparr>world = [3, 4, 5], produced = 2, transformed = 2\<rparr>)"
    by (simp add: eff_bind_def eff_return_def next_probe_map list_cursor_def)
  from 1 5 cursor_take_counts [of k c0 f p] cursor_take_map_pure [of k c1 g]
  show ?thesis by blast
qed

section \<open>Failures\<close>

text \<open>
  Claim C8, as stated, has every failure reach the caller through the channel the
  operation normally uses. \<^verbatim>\<open>insertOne\<close> returns a promise, and the example handle
  reports its failure (99) by rejecting that promise; but when \<^verbatim>\<open>preInsert\<close> throws
  (13), the wrapped \<^verbatim>\<open>insertOne\<close> returns no promise: the call itself throws 13, and the
  underlying \<^verbatim>\<open>insertOne\<close> is not called.
\<close>

theorem failure_channel_counterexample:
  "insertOne example_rejecting 1 2 [] = (Inr (Promise (eff_throw 99)), [Called_insertOne 1 2])
 \<and> insertOne (convertRawCollection example_rejecting example_throwing_converter) 1 2 []
     = (Inl 13, [])"
  by (simp add: wrapped_insertOne example_rejecting_def example_throwing_converter_def
      example_found_def spy_def record_call_apply eff_bind_def eff_throw_def)

text \<open>
  Claim C8, amended. \<open>convertRawCollection\<close> is a function without effects: building the
  wrapper calls neither the handle nor a transform, and so cannot fail. In an operation
  every failure comes out as it went in, with its exception and the world of that moment:
  \<^item> a failing pre-transform (\<^verbatim>\<open>preInsert\<close>, also inside \<^verbatim>\<open>docs.map\<close>,
    \<^verbatim>\<open>preUpdate\<close>, \<^verbatim>\<open>preReplace\<close>, \<^verbatim>\<open>deleteFilter\<close>) makes the wrapped call throw
    that exception, synchronously, also when the operation returns a promise, and before
    the underlying operation is called;
  \<^item> otherwise the outcome of the underlying call is the outcome of the wrapped call: an
    exception it throws is thrown, a promise or cursor it returns is returned, for the
    reads with the post-transform chained to it;
  \<^item> a rejection of the underlying promise, or a failing \<^verbatim>\<open>next\<close> of the underlying
    cursor, is the rejection or failure of the chained one, \<^verbatim>\<open>postFind\<close> not being
    called; a failing \<^verbatim>\<open>postFind\<close> rejects the chained promise, or fails the chained
    \<^verbatim>\<open>next\<close>, with its exception;
  \<^item> a member outside the intercepted set is the underlying member itself.
  No branch turns a failure into a result, changes its exception, or calls anything again.
\<close>

theorem failures_propagate:
  "insertOne (convertRawCollection h cv) D O' s
     = (case preInsert cv D None s of
          (Inl e, s') \<Rightarrow> (Inl e, s')
        | (Inr d, s') \<Rightarrow> insertOne h d O' s')
 \<and> insertMany (convertRawCollection h cv) Ds O' s
     = (case array_map (preInsert cv) Ds s of
          (Inl e, s') \<Rightarrow> (Inl e, s')
        | (Inr ds, s') \<Rightarrow> insertMany h ds O' s')
 \<and> insert_op (convertRawCollection h cv) Ds O' s
     = (case array_map (preInsert cv) Ds s of
          (Inl e, s') \<Rightarrow> (Inl e, s')
        | (Inr ds, s') \<Rightarrow> insert_op h ds O' s')
 \<and> updateOne (convertRawCollection h cv) F U O' s
     = (case preUpdate cv U s of
          (Inl e, s') \<Rightarrow> (Inl e, s')
        | (Inr u, s') \<Rightarrow> updateOne h F u O' s')
 \<and> updateMany (convertRawCollection h cv) F U O' s
     = (case preUpdate cv U s of
          (Inl e, s') \<Rightarrow> (Inl e, s')
        | (Inr u, s') \<Rightarrow> updateMany h F u O' s')
 \<and> update (convertRawCollection h cv) F U O' s
     = (case preUpdate cv U s of
          (Inl e, s') \<Rightarrow> (Inl e, s')
        | (Inr u, s') \<Rightarrow> update h F u O' s')
 \<and> replaceOne (convertRawCollection h cv) F R O' s
     = (case preReplace cv R s of
          (Inl e, s') \<Rightarrow> (Inl e, s')
        | (Inr r, s') \<Rightarrow> replaceOne h F r O' s')
 \<and> deleteOne (convertRawCollection h cv) F O' s
     = (case deleteFilter cv F s of
          (Inl e, s') \<Rightarrow> (Inl e, s')
        | (Inr f, s') \<Rightarrow> deleteOne h f O' s')
 \<and> deleteMany (convertRawCollection h cv) F O' s
     = (case deleteFilter cv F s of
          (Inl e, s') \<Rightarrow> (Inl e, s')
        | (Inr f, s') \<Rightarrow> deleteMany h f O' s')
 \<and> array_map g arr = array_map_from g arr 0 arr
 \<and> array_map_from g arr i (x # xs) s
     = (case g x (Some (i, arr)) s of
          (Inl e, s') \<Rightarrow> (Inl e, s')
        | (Inr y, s') \<Rightarrow>
            (case array_map_from g arr (Suc i) xs s' of
               (Inl e, s'') \<Rightarrow> (Inl e, s'')
             | (Inr ys, s'') \<Rightarrow> (Inr (y # ys), s'')))
 \<and> findOne (convertRawCollection h cv) F O' s
     = (case findOne h F O' s of
          (Inl e, s') \<Rightarrow> (Inl e, s')
        | (Inr p, s') \<Rightarrow> (Inr (promise_then p
               (\<lambda>result. case result of
                    Some doc \<Rightarrow> eff_bind (postFind cv doc) (\<lambda>doc'. eff_return (Some doc'))
                  | None \<Rightarrow> eff_return None)), s'))
 \<and> settle (promise_then p
               (\<lambda>result. case result of
                    Some doc \<Rightarrow> eff_bind (postFind cv doc) (\<lambda>doc'. eff_return (Some doc'))
                  | None \<Rightarrow> eff_return None)) t
     = (case settle p t of
          (Inl e, t') \<Rightarrow> (Inl e, t')
        | (Inr None, t') \<Rightarrow> (Inr None, t')
        | (Inr (Some doc), t') \<Rightarrow>
            (case postFind cv doc t' of
               (Inl e, t'') \<Rightarrow> (Inl e, t'')
             | (Inr doc', t'') \<Rightarrow> (Inr (Some doc'), t'')))
 \<and> findOneAndDelete (convertRawCollection h cv) F O' s
     = (case findOneAndDelete h F O' s of
          (Inl e, s') \<Rightarrow> (Inl e, s')
        | (Inr q, s') \<Rightarrow> (Inr (promise_then q (convertModifyResult cv)), s'))
 \<and> findOneAndReplace (convertRawCollection h cv) F R O' s
     = (case preReplace cv R s of
          (Inl e, s') \<Rightarrow> (Inl e, s')
        | (Inr r, s') \<Rightarrow>
            (case findOneAndReplace h F r O' s' of
               (Inl e, s'') \<Rightarrow> (Inl e, s'')
             | (Inr q, s'') \<Rightarrow> (Inr (promise_then q (convertModifyResult cv)), s'')))
 \<and> findOneAndUpdate (convertRawCollection h cv) F U O' s
     = (case preUpdate cv U s of
          (Inl e, s') \<Rightarrow> (Inl e, s')
        | (Inr u, s') \<Rightarrow>
            (case findOneAndUpdate h F u O' s' of
               (Inl e, s'') \<Rightarrow> (Inl e, s'')
             | (Inr q, s'') \<Rightarrow> (Inr (promise_then q (convertModifyResult cv)), s'')))
 \<and> settle (promise_then q (convertModifyResult cv)) t
     = (case settle q t of
          (Inl e, t') \<Rightarrow> (Inl e, t')
        | (Inr res, t') \<Rightarrow>
            (case mr_value res of
               None \<Rightarrow> (Inr res, t')
             | Some doc \<Rightarrow>
                 (case postFind cv doc t' of
                    (Inl e, t'') \<Rightarrow> (Inl e, t'')
                  | (Inr doc', t'') \<Rightarrow>
                      (Inr \<lparr>mr_value = Some doc', \<dots> = modifyResult.more res\<rparr>, t''))))
 \<and> find_op (convertRawCollection h cv) F O' s
     = (case find_op h F O' s of
          (Inl e, s') \<Rightarrow> (Inl e, s')
        | (Inr c, s') \<Rightarrow> (Inr (cursor_map c (postFind cv)), s'))
 \<and> next_doc (cursor_map c (postFind cv)) t
     = (case next_doc c t of
          (Inl e, t') \<Rightarrow> (Inl e, t')
        | (Inr None, t') \<Rightarrow> (Inr None, t')
        | (Inr (Some doc), t') \<Rightarrow>
            (case postFind cv doc t' of
               (Inl e, t'') \<Rightarrow> (Inl e, t'')
             | (Inr doc', t'') \<Rightarrow> (Inr (Some doc'), t'')))
 \<and> get cv h prop
     = (if prop \<in> set intercepted then get cv h prop else M_other (others h prop))"
proof -
  have c0: "insertOne (convertRawCollection h cv) D O' s
     = (case preInsert cv D None s of
          (Inl e, s') \<Rightarrow> (Inl e, s')
        | (Inr d, s') \<Rightarrow> insertOne h d O' s')"
    by (simp add: wrapped_members eff_bind_def eff_return_def settle_promise_then
        cursor_map_def convertModifyResult_def Let_def get_default
        split: prod.splits sum.splits option.splits)
  have c1: "insertMany (convertRawCollection h cv) Ds O' s
     = (case array_map (preInsert cv) Ds s of
          (Inl e, s') \<Rightarrow> (Inl e, s')
        | (Inr ds, s') \<Rightarrow> insertMany h ds O' s')"
    by (simp add: wrapped_members eff_bind_def eff_return_def settle_promise_then
        cursor_map_def convertModifyResult_def Let_def get_default
        split: prod.splits sum.splits option.splits)
  have c2: "insert_op (convertRawCollection h cv) Ds O' s
     = (case array_map (preInsert cv) Ds s of
          (Inl e, s') \<Rightarrow> (Inl e, s')
        | (Inr ds, s') \<Rightarrow> insert_op h ds O' s')"
    by (simp add: wrapped_members eff_bind_def eff_return_def settle_promise_then
        cursor_map_def convertModifyResult_def Let_def get_default
        split: prod.splits sum.splits option.splits)
  have c3: "updateOne (convertRawCollection h cv) F U O' s
     = (case preUpdate cv U s of
          (Inl e, s') \<Rightarrow> (Inl e, s')
        | (Inr u, s') \<Rightarrow> updateOne h F u O' s')"
    by (simp add: wrapped_members eff_bind_def eff_return_def settle_promise_then
        cursor_map_def convertModifyResult_def Let_def get_default
        split: prod.splits sum.splits option.splits)
  have c4: "updateMany (convertRawCollection h cv) F U O' s
     = (case preUpdate cv U s of
          (Inl e, s') \<Rightarrow> (Inl e, s')
        | (Inr u, s') \<Rightarrow> updateMany h F u O' s')"
    by (simp add: wrapped_members eff_bind_def eff_return_def settle_promise_then
        cursor_map_def convertModifyResult_def Let_def get_default
        split: prod.splits sum.splits option.splits)
  have c5: "update (convertRawCollection h cv) F U O' s
     = (case preUpdate cv U s of
          (Inl e, s') \<Rightarrow> (Inl e, s')
        | (Inr u, s') \<Rightarrow> update h F u O' s')"
    by (simp add: wrapped_members eff_bind_def eff_return_def settle_promise_then
        cursor_map_def convertModifyResult_def Let_def get_default
        split: prod.splits sum.splits option.splits)
  have c6: "replaceOne (convertRawCollection h cv) F R O' s
     = (case preReplace cv R s of
          (Inl e, s') \<Rightarrow> (Inl e, s')
        | (Inr r, s') \<Rightarrow> replaceOne h F r O' s')"
    by (simp add: wrapped_members eff_bind_def eff_return_def settle_promise_then
        cursor_map_def convertModifyResult_def Let_def get_default
        split: prod.splits sum.splits option.splits)
  have c7: "deleteOne (convertRawCollection h cv) F O' s
     = (case deleteFilter cv F s of
          (Inl e, s') \<Rightarrow> (Inl e, s')
        | (Inr f, s') \<Rightarrow> deleteOne h f O' s')"
    by (simp add: wrapped_members eff_bind_def eff_return_def settle_promise_then
        cursor_map_def convertModifyResult_def Let_def get_default
        split: prod.splits sum.splits option.splits)
  have c8: "deleteMany (convertRawCollection h cv) F O' s
     = (case deleteFilter cv F s of
          (Inl e, s') \<Rightarrow> (Inl e, s')
        | (Inr f, s') \<Rightarrow> deleteMany h f O' s')"
    by (simp add: wrapped_members eff_bind_def eff_return_def settle_promise_then
        cursor_map_def convertModifyResult_def Let_def get_default
        split: prod.splits sum.splits option.splits)
  have c9a: "array_map g arr = array_map_from g arr 0 arr"
    by (simp add: array_map_def)
  have c9: "array_map_from g arr i (x # xs) s
     = (case g x (Some (i, arr)) s of
          (Inl e, s') \<Rightarrow> (Inl e, s')
        | (Inr y, s') \<Rightarrow>
            (case array_map_from g arr (Suc i) xs s' of
               (Inl e, s'') \<Rightarrow> (Inl e, s'')
             | (Inr ys, s'') \<Rightarrow> (Inr (y # ys), s'')))"
    by (simp add: wrapped_members eff_bind_def eff_return_def settle_promise_then
        cursor_map_def convertModifyResult_def Let_def get_default
        split: prod.splits sum.splits option.splits)
  have c10: "findOne (convertRawCollection h cv) F O' s
     = (case findOne h F O' s of
          (Inl e, s') \<Rightarrow> (Inl e, s')
        | (Inr p, s') \<Rightarrow> (Inr (promise_then p
               (\<lambda>result. case result of
                    Some doc \<Rightarrow> eff_bind (postFind cv doc) (\<lambda>doc'. eff_return (Some doc'))
                  | None \<Rightarrow> eff_return None)), s'))"
    by (simp add: wrapped_members eff_bind_def eff_return_def settle_promise_then
        cursor_map_def convertModifyResult_def Let_def get_default
        split: prod.splits sum.splits option.splits)
  have c11: "settle (promise_then p
               (\<lambda>result. case result of
                    Some doc \<Rightarrow> eff_bind (postFind cv doc) (\<lambda>doc'. eff_return (Some doc'))
                  | None \<Rightarrow> eff_return None)) t
     = (case settle p t of
          (Inl e, t') \<Rightarrow> (Inl e, t')
        | (Inr None, t') \<Rightarrow> (Inr None, t')
        | (Inr (Some doc), t') \<Rightarrow>
            (case postFind cv doc t' of
               (Inl e, t'') \<Rightarrow> (Inl e, t'')
             | (Inr doc', t'') \<Rightarrow> (Inr (Some doc'), t'')))"
    by (simp add: wrapped_members eff_bind_def eff_return_def settle_promise_then
        cursor_map_def convertModifyResult_def Let_def get_default
        split: prod.splits sum.splits option.splits)
  have c12: "findOneAndDelete (convertRawCollection h cv) F O' s
     = (case findOneAndDelete h F O' s of
          (Inl e, s') \<Rightarrow> (Inl e, s')
        | (Inr q, s') \<Rightarrow> (Inr (promise_then q (convertModifyResult cv)), s'))"
    by (simp add: wrapped_members eff_bind_def eff_return_def settle_promise_then
        cursor_map_def convertModifyResult_def Let_def get_default
        split: prod.splits sum.splits option.splits)
  have c13: "findOneAndReplace (convertRawCollection h cv) F R O' s
     = (case preReplace cv R s of
          (Inl e, s') \<Rightarrow> (Inl e, s')
        | (Inr r, s') \<Rightarrow>
            (case findOneAndReplace h F r O' s' of
               (Inl e, s'') \<Rightarrow> (Inl e, s'')
             | (Inr q, s'') \<Rightarrow> (Inr (promise_then q (convertModifyResult cv)), s'')))"
    by (simp add: wrapped_members eff_bind_def eff_return_def settle_promise_then
        cursor_map_def convertModifyResult_def Let_def get_default
        split: prod.splits sum.splits option.splits)
  have c14: "findOneAndUpdate (convertRawCollection h cv) F U O' s
     = (case preUpdate cv U s of
          (Inl e, s') \<Rightarrow> (Inl e, s')
        | (Inr u, s') \<Rightarrow>
            (case findOneAndUpdate h F u O' s' of
               (Inl e, s'') \<Rightarrow> (Inl e, s'')
             | (Inr q, s'') \<Rightarrow> (Inr (promise_then q (convertModifyResult cv)), s'')))"
    by (simp add: wrapped_members eff_bind_def eff_return_def settle_promise_then
        cursor_map_def convertModifyResult_def Let_def get_default
        split: prod.splits sum.splits option.splits)
  have c15: "settle (promise_then q (convertModifyResult cv)) t
     = (case settle q t of
          (Inl e, t') \<Rightarrow> (Inl e, t')
        | (Inr res, t') \<Rightarrow>
            (case mr_value res of
               None \<Rightarrow> (Inr res, t')
             | Some doc \<Rightarrow>
                 (case postFind cv doc t' of
                    (Inl e, t'') \<Rightarrow> (Inl e, t'')
                  | (Inr doc', t'') \<Rightarrow>
                      (Inr \<lparr>mr_value = Some doc', \<dots> = modifyResult.more res\<rparr>, t''))))"
    by (simp add: wrapped_members eff_bind_def eff_return_def settle_promise_then
        cursor_map_def convertModifyResult_def Let_def get_default
        split: prod.splits sum.splits option.splits)
  have c16: "find_op (convertRawCollection h cv) F O' s
     = (case find_op h F O' s of
          (Inl e, s') \<Rightarrow> (Inl e, s')
        | (Inr c, s') \<Rightarrow> (Inr (cursor_map c (postFind cv)), s'))"
    by (simp add: wrapped_members eff_bind_def eff_return_def settle_promise_then
        cursor_map_def convertModifyResult_def Let_def get_default
        split: prod.splits sum.splits option.splits)
  have c17: "next_doc (cursor_map c (postFind cv)) t
     = (case next_doc c t of
          (Inl e, t') \<Rightarrow> (Inl e, t')
        | (Inr None, t') \<Rightarrow> (Inr None, t')
        | (Inr (Some doc), t') \<Rightarrow>
            (case postFind cv doc t' of
               (Inl e, t'') \<Rightarrow> (Inl e, t'')
             | (Inr doc', t'') \<Rightarrow> (Inr (Some doc'), t'')))"
    by (simp add: wrapped_members eff_bind_def eff_return_def settle_promise_then
        cursor_map_def convertModifyResult_def Let_def get_default
        split: prod.splits sum.splits option.splits)
  have c18: "get cv h prop
     = (if prop \<in> set intercepted then get cv h prop else M_other (others h prop))"
    by (simp add: wrapped_members eff_bind_def eff_return_def settle_promise_then
        cursor_map_def convertModifyResult_def Let_def get_default
        split: prod.splits sum.splits option.splits)
  from c0 c1 c2 c3 c4 c5 c6 c7 c8 c9a c9 c10 c11 c12 c13 c14 c15 c16 c17 c18 show ?thesis by blast
qed

end
